theory Spec2Isabelle
  imports Main
begin

section \<open>JavaScript values and strings\<close>

text \<open>
  Strings are lists of code units. The model covers the code units 0 to 255 (the
  Latin-1 range of UTF-16); in that range \<open>String.prototype.toLowerCase\<close> maps A to Z
  and the upper-case letters U+00C0 to U+00DE (without the multiplication sign U+00D7)
  to the code unit 32 above, and \<open>String.prototype.trim\<close> removes TAB, LF, VT, FF, CR,
  SPACE and NO-BREAK SPACE from both ends.
\<close>

definition lowerChar :: "char \<Rightarrow> char" where
  "lowerChar c =
     (let n = (of_char c :: nat)
      in if (65 \<le> n \<and> n \<le> 90) \<or> (192 \<le> n \<and> n \<le> 222 \<and> n \<noteq> 215)
         then char_of (n + 32) else c)"

definition toLowerCase :: "string \<Rightarrow> string" where
  "toLowerCase s = map lowerChar s"

definition isWhiteSpace :: "char \<Rightarrow> bool" where
  "isWhiteSpace c = (of_char c \<in> {9, 10, 11, 12, 13, 32, 160 :: nat})"

definition trim :: "string \<Rightarrow> string" where
  "trim s = rev (dropWhile isWhiteSpace (rev (dropWhile isWhiteSpace s)))"

text \<open>
  A nullable string (\<open>string | null | undefined\<close>) is a \<open>string option\<close>. It is truthy
  when it is a non-empty string; \<open>a || b\<close> is \<open>a\<close> when \<open>a\<close> is truthy and \<open>b\<close> otherwise.
\<close>

fun truthy :: "string option \<Rightarrow> bool" where
  "truthy None = False"
| "truthy (Some s) = (s \<noteq> [])"

definition orElse :: "string option \<Rightarrow> string option \<Rightarrow> string option" where
  "orElse a b = (if truthy a then a else b)"

definition orDefault :: "string option \<Rightarrow> string \<Rightarrow> string" where
  "orDefault a d = (if truthy a then the a else d)"

text \<open>
  Where the code prints a value that may be missing, compares its text or sends it,
  \<open>null\<close> and \<open>undefined\<close> are told apart: \<open>String(v)\<close> and a template literal print
  them as the texts \<open>null\<close> and \<open>undefined\<close>. Such a field is an \<open>nstr\<close>.
\<close>

datatype nstr = Undefined | Null | Str string

fun truthyN :: "nstr \<Rightarrow> bool" where
  "truthyN (Str s) = (s \<noteq> [])"
| "truthyN v = False"

definition orElseN :: "nstr \<Rightarrow> nstr \<Rightarrow> nstr" where
  "orElseN a b = (if truthyN a then a else b)"

fun String' :: "nstr \<Rightarrow> string" where
  "String' Undefined = ''undefined''"
| "String' Null = ''null''"
| "String' (Str s) = s"

text \<open>Values of type \<open>any\<close>: what \<open>JSON.parse\<close> returns and what a row of a table holds.\<close>

datatype jsval =
    JUndefined
  | JNull
  | JBool bool
  | JNum int
  | JStr string
  | JArr "jsval list"
  | JObj "(string \<times> jsval) list"

fun truthyVal :: "jsval \<Rightarrow> bool" where
  "truthyVal JUndefined = False"
| "truthyVal JNull = False"
| "truthyVal (JBool b) = b"
| "truthyVal (JNum n) = (n \<noteq> 0)"
| "truthyVal (JStr s) = (s \<noteq> [])"
| "truthyVal (JArr xs) = True"
| "truthyVal (JObj fs) = True"

definition orVal :: "jsval \<Rightarrow> jsval \<Rightarrow> jsval" where
  "orVal a b = (if truthyVal a then a else b)"

text \<open>The messages of the TypeError thrown when a property of \<open>null\<close> or \<open>undefined\<close> is
  read (the wording is the engine's and no property of the program depends on it).\<close>

definition readOfNull :: "string \<Rightarrow> string" where
  "readOfNull k = ''Cannot read properties of null (reading '' @ [CHR 0x27] @ k @ [CHR 0x27] @ '')''"

definition readOfUndefined :: "string \<Rightarrow> string" where
  "readOfUndefined k =
     ''Cannot read properties of undefined (reading '' @ [CHR 0x27] @ k @ [CHR 0x27] @ '')''"

text \<open>
  Reading the property \<open>k\<close> of a value that \<open>JSON.parse\<close> returned: \<open>null\<close> has no
  properties and the read throws a TypeError (\<open>Inl\<close> its message); an object gives its
  own property or \<open>undefined\<close>; the keys read here are not array indices or \<open>length\<close>, so
  every other value gives \<open>undefined\<close>.
\<close>

fun getProp :: "jsval \<Rightarrow> string \<Rightarrow> string + jsval" where
  "getProp JNull k = Inl (readOfNull k)"
| "getProp JUndefined k = Inl (readOfUndefined k)"
| "getProp (JObj fs) k = Inr (case map_of fs k of None \<Rightarrow> JUndefined | Some v \<Rightarrow> v)"
| "getProp v k = Inr JUndefined"

section \<open>openai-config.ts: API key and document analysis\<close>

text \<open>\<open>getOpenAIApiKey\<close>: the argument is \<open>import.meta.env.VITE_OPENAI_API_KEY\<close>; \<open>Inl\<close> is the
  message of the Error thrown.\<close>

definition getOpenAIApiKey :: "string option \<Rightarrow> string + string" where
  "getOpenAIApiKey apiKey =
     (if \<not> truthy apiKey
      then Inl ''OpenAI API key not configured. Please add VITE_OPENAI_API_KEY to your .env file''
      else if trim (the apiKey) = ''''
      then Inl ''OpenAI API key is empty. Please check your .env file''
      else Inr (trim (the apiKey)))"

definition normalizePriority :: "string \<Rightarrow> string" where
  "normalizePriority priority =
     (let normalized = trim (toLowerCase priority)
      in if normalized = ''low'' \<or> normalized = ''medium'' \<or> normalized = ''high''
         then normalized
         else ''medium'')"

definition normalizeSentiment :: "string \<Rightarrow> string" where
  "normalizeSentiment sentiment =
     (let normalized = trim (toLowerCase sentiment)
      in if normalized = ''low'' \<or> normalized = ''mid'' \<or> normalized = ''medium''
            \<or> normalized = ''high''
         then (if normalized = ''medium'' then ''mid'' else normalized)
         else ''mid'')"

text \<open>
  The two functions are typed \<open>string\<close> in the source, but they receive fields of a
  parsed JSON document: on a value that is not a string, \<open>.toLowerCase()\<close> throws a
  TypeError.
\<close>

fun callToLowerCase :: "string \<Rightarrow> jsval \<Rightarrow> (string \<Rightarrow> string) \<Rightarrow> string + string" where
  "callToLowerCase name (JStr s) f = Inr (f s)"
| "callToLowerCase name JUndefined f = Inl (readOfUndefined ''toLowerCase'')"
| "callToLowerCase name JNull f = Inl (readOfNull ''toLowerCase'')"
| "callToLowerCase name v f = Inl (name @ ''.toLowerCase is not a function'')"

text \<open>
  What \<open>fetch\<close> of the chat-completion endpoint gives, read through the fields the code
  reads: the call rejects with a message; or it resolves to a response that is not \<open>ok\<close>,
  whose \<open>json()\<close> rejects with a message or gives \<open>error.error?.message\<close>; or it resolves
  to an \<open>ok\<close> response, where reading \<open>data.choices[0]?.message?.content\<close> throws with a
  message or gives that string (if any).
\<close>

datatype fetch_outcome =
    FetchRejected string
  | NotOk "string + string option"
  | Ok "string + string option"

record PDFAnalysisResult =
  priority :: string
  keywordsCount :: jsval
  sentiment :: string
  reasoning :: jsval

text \<open>
  The part of the world the analysis reads: the environment variable, the outcome of
  reading the file (\<open>None\<close> when the FileReader rejects), the outcome of the HTTP
  call, and \<open>JSON.parse\<close>. The request itself (prompt, model, image data) is fixed text
  around the file's content and is not modelled.
\<close>

record vision_env =
  VITE_OPENAI_API_KEY :: "string option"
  fileToBase64 :: "string option"
  fetch_completion :: fetch_outcome
  JSON_parse :: "string \<Rightarrow> string + jsval"

text \<open>What a call of the analysis throws: an Error with a message, or the event with which
  the FileReader rejects.\<close>

datatype thrown = Error string | ReaderEvent

text \<open>The body of the \<open>try\<close> block from the point where the content has been read.\<close>

definition parseAnalysis :: "(string \<Rightarrow> string + jsval) \<Rightarrow> string \<Rightarrow> string + PDFAnalysisResult" where
  "parseAnalysis parse content =
     (case parse content of
        Inl e \<Rightarrow> Inl e
      | Inr analysis \<Rightarrow>
          (case getProp analysis ''priority'' of
             Inl e \<Rightarrow> Inl e
           | Inr p \<Rightarrow>
               (case callToLowerCase ''priority'' p normalizePriority of
                  Inl e \<Rightarrow> Inl e
                | Inr priority' \<Rightarrow>
                    (case getProp analysis ''sentiment'' of
                       Inl e \<Rightarrow> Inl e
                     | Inr s \<Rightarrow>
                         (case callToLowerCase ''sentiment'' s normalizeSentiment of
                            Inl e \<Rightarrow> Inl e
                          | Inr sentiment' \<Rightarrow>
                              (case (getProp analysis ''keywordsCount'', getProp analysis ''reasoning'') of
                                 (Inr k, Inr r) \<Rightarrow>
                                   Inr \<lparr>priority = priority',
                                        keywordsCount = orVal k (JNum 0),
                                        sentiment = sentiment',
                                        reasoning = orVal r (JStr '''')\<rparr>
                               | (Inl e, _) \<Rightarrow> Inl e
                               | (_, Inl e) \<Rightarrow> Inl e))))))"

definition analyzeTry :: "vision_env \<Rightarrow> string \<Rightarrow> string + PDFAnalysisResult" where
  "analyzeTry venv fallback =
     (case fetch_completion venv of
        FetchRejected e \<Rightarrow> Inl e
      | NotOk (Inl e) \<Rightarrow> Inl e
      | NotOk (Inr m) \<Rightarrow> Inl (orDefault m fallback)
      | Ok (Inl e) \<Rightarrow> Inl e
      | Ok (Inr content) \<Rightarrow>
          (if \<not> truthy content then Inl ''No response from OpenAI''
           else parseAnalysis (JSON_parse venv) (the content)))"

definition analyzeImageWithOpenAI :: "vision_env \<Rightarrow> string option \<Rightarrow> thrown + PDFAnalysisResult" where
  "analyzeImageWithOpenAI venv apiKey =
     (case (if truthy apiKey then Inr (the apiKey) else getOpenAIApiKey (VITE_OPENAI_API_KEY venv)) of
        Inl e \<Rightarrow> Inl (Error e)
      | Inr openAIApiKey \<Rightarrow>
          (case fileToBase64 venv of
             None \<Rightarrow> Inl ReaderEvent
           | Some base64 \<Rightarrow>
               (case analyzeTry venv ''Failed to analyze image'' of
                  Inl e \<Rightarrow> Inl (Error (''Failed to analyze image: '' @ e))
                | Inr r \<Rightarrow> Inr r)))"

definition analyzePDFWithOpenAI :: "vision_env \<Rightarrow> string option \<Rightarrow> thrown + PDFAnalysisResult" where
  "analyzePDFWithOpenAI venv apiKey =
     (case (if truthy apiKey then Inr (the apiKey) else getOpenAIApiKey (VITE_OPENAI_API_KEY venv)) of
        Inl e \<Rightarrow> Inl (Error e)
      | Inr openAIApiKey \<Rightarrow>
          (case fileToBase64 venv of
             None \<Rightarrow> Inl ReaderEvent
           | Some base64 \<Rightarrow>
               (case analyzeTry venv ''Failed to analyze PDF'' of
                  Inl e \<Rightarrow> Inl (Error (''Failed to analyze PDF: '' @ e))
                | Inr r \<Rightarrow> Inr r)))"

section \<open>Remote calls and their traces\<close>

text \<open>
  Every \<open>await\<close> of a call to the backend, to an edge function or to the HTTP API is an
  event: \<open>SelectSingle t cols filters\<close> is \<open>from(t).select(cols).eq(..)...single()\<close> with one
  pair per \<open>eq\<close>, \<open>SelectMany\<close> the same query without \<open>single()\<close> (its \<open>order\<close> and \<open>limit\<close>
  are not recorded); \<open>InsertRow\<close>, \<open>UpdateRow\<close> and \<open>DeleteRow\<close> are the writes, with their
  payload and filters. A computation is the value it resolves to, or the message of the Error it throws,
  together with the events it performed, in order. The query builder, \<open>auth.getSession\<close>
  and \<open>functions.invoke\<close> resolve to a \<open>{data, error}\<close> pair and do not reject; \<open>fetch\<close>
  may reject.
\<close>

datatype table = Clients | Deals | Automations | AutomationRuns | Interactions | ClientPrioritizations

record email_body =
  to :: string
  subject :: string
  html :: string
  text_part :: string

datatype event =
    SelectSingle table string "(string \<times> string) list"
  | SelectMany table string "(string \<times> string) list"
  | GetSession
  | Invoke string email_body
  | Fetch string
  | InsertRow table "(string \<times> jsval) list"
  | UpdateRow table "(string \<times> jsval) list" "(string \<times> string) list"
  | DeleteRow table "(string \<times> string) list"

type_synonym 'a comp = "(string + 'a) \<times> event list"

definition returns :: "'a \<Rightarrow> 'a comp" where
  "returns x = (Inr x, [])"

definition throws :: "string \<Rightarrow> 'a comp" where
  "throws e = (Inl e, [])"

definition remote :: "event \<Rightarrow> 'a \<Rightarrow> 'a comp" where
  "remote ev response = (Inr response, [ev])"

definition andThen :: "'a comp \<Rightarrow> ('a \<Rightarrow> 'b comp) \<Rightarrow> 'b comp" where
  "andThen m f =
     (case m of
        (Inl e, tr) \<Rightarrow> (Inl e, tr)
      | (Inr x, tr) \<Rightarrow> (case f x of (r, tr') \<Rightarrow> (r, tr @ tr')))"

definition tryCatch :: "'a comp \<Rightarrow> (string \<Rightarrow> 'a comp) \<Rightarrow> 'a comp" where
  "tryCatch m handler =
     (case m of
        (Inl e, tr) \<Rightarrow> (case handler e of (r, tr') \<Rightarrow> (r, tr @ tr'))
      | (Inr x, tr) \<Rightarrow> (Inr x, tr))"

text \<open>\<open>error.message || fallback\<close> for a caught Error with message \<open>e\<close>.\<close>

definition messageOr :: "string \<Rightarrow> string \<Rightarrow> string" where
  "messageOr e fallback = (if e \<noteq> [] then e else fallback)"

text \<open>The value of an optional parameter \<open>clientEmail?: string\<close> (absent, it is
  \<open>undefined\<close>) and of an \<open>nstr\<close>, as members of an object literal.\<close>

definition asVal :: "string option \<Rightarrow> jsval" where
  "asVal v = (case v of None \<Rightarrow> JUndefined | Some s \<Rightarrow> JStr s)"

fun valOf :: "nstr \<Rightarrow> jsval" where
  "valOf Undefined = JUndefined"
| "valOf Null = JNull"
| "valOf (Str s) = JStr s"

section \<open>The automation executor\<close>

text \<open>
  Field \<open>x\<close> of a source object is the selector with the object's prefix: \<open>a_\<close> for an
  automation, \<open>cfg_\<close> for its config, \<open>c_\<close> for a row of \<open>clients\<close>, \<open>sr_\<close> for the data
  an invocation of \<open>send-email\<close> returns, \<open>err_\<close> for an error object.
\<close>

record config =
  cfg_email_message :: "string option"
  cfg_email_send_date :: "string option"
  cfg_email_subject :: "string option"
  cfg_client_id :: "string option"
  cfg_meeting_name :: "string option"
  cfg_email_content :: "string option"

record automation =
  a_automation_id :: nstr
  a_id :: nstr
  a_name :: "string option"
  a_action_type_type :: nstr
  a_action_type :: nstr
  a_is_enabled :: "bool option"
  a_is_active :: "bool option"
  a_config :: "config option"

record AutomationExecutionResult =
  success :: bool
  message :: string
  data :: jsval

datatype error_object = ErrorObject (err_message: "string option") (err_code: "string option")

record client_row =
  c_client_id :: "string option"
  c_id :: "string option"
  c_name :: "string option"
  c_client_name :: "string option"
  c_email :: "string option"

record send_result =
  sr_success :: bool
  sr_error :: "string option"
  sr_message :: "string option"
  sr_id :: jsval

record run_row =
  run_id :: string

text \<open>
  The world the executor runs in: the clock, the environment variable, and what each
  remote call answers. \<open>select_client col v\<close> answers
  \<open>from("clients").select(..).eq(col, v).single()\<close>; \<open>parse_date\<close> is \<open>new Date(s).getTime()\<close>
  (\<open>None\<close> for an invalid date), \<open>now_ms\<close> the same of \<open>new Date()\<close> and \<open>locale_string\<close>
  is \<open>Date.prototype.toLocaleString\<close> on such a time; \<open>now\<close> is \<open>new Date().toISOString()\<close>, and
  the clock stands still during a call. The answers to the
  queries of deals, interactions and prioritizations and to the update of the run only
  reach the prompt text and the console, so they are not part of the record.
\<close>

record env =
  now :: string
  now_ms :: int
  parse_date :: "string \<Rightarrow> int option"
  locale_string :: "int \<Rightarrow> string"
  api_key_var :: "string option"
  select_client :: "string \<Rightarrow> string \<Rightarrow> client_row option \<times> error_object option"
  session :: bool
  invoke_send_email :: "email_body \<Rightarrow> send_result option \<times> error_object option"
  fetch_summary :: fetch_outcome
  insert_run :: "(string \<times> jsval) list \<Rightarrow> run_row option \<times> error_object option"

definition isTrue :: "bool option \<Rightarrow> bool" where
  "isTrue b = (b = Some True)"

definition emptyConfig :: config where
  "emptyConfig = \<lparr>cfg_email_message = None, cfg_email_send_date = None, cfg_email_subject = None,
     cfg_client_id = None, cfg_meeting_name = None, cfg_email_content = None\<rparr>"

definition configOf :: "automation \<Rightarrow> config" where
  "configOf automation = (case a_config automation of None \<Rightarrow> emptyConfig | Some c \<Rightarrow> c)"

text \<open>\<open>s.replace(/\n/g, "<br>")\<close>\<close>

definition replaceNewlines :: "string \<Rightarrow> string" where
  "replaceNewlines s = concat (map (\<lambda>c. if c = CHR 0x0A then ''<br>'' else [c]) s)"

text \<open>The lookup of the recipient shared by the email and the meeting handler:
  \<open>clientEmail\<close> when it is given, else the \<open>email\<close> of the client \<open>config.client_id\<close>.\<close>

definition clientNotFound :: "error_object option \<Rightarrow> string" where
  "clientNotFound clientError =
     ''Client not found: '' @
       orDefault (case clientError of None \<Rightarrow> None | Some e \<Rightarrow> err_message e) ''Unknown error''"

definition recipientOf :: "env \<Rightarrow> string option \<Rightarrow> string option \<Rightarrow> (string option) comp" where
  "recipientOf env clientEmail clientId =
     (if \<not> truthy clientEmail \<and> truthy clientId
      then andThen
             (remote (SelectSingle Clients ''email, client_id'' [(''client_id'', the clientId)])
                     (select_client env ''client_id'' (the clientId)))
             (\<lambda>(client, clientError).
                if clientError \<noteq> None \<or> client = None
                then throws (clientNotFound clientError)
                else returns (c_email (the client)))
      else returns clientEmail)"

subsection \<open>The handlers\<close>

text \<open>
  \<open>executeEmailAutomation\<close>: the body of the \<open>try\<close> block, then the function with its
  \<open>catch\<close>. The comparison of \<open>config.email_send_date\<close> with the clock only writes to the
  console: the email is sent whatever the date is.
\<close>

definition executeEmailAutomation_try ::
  "env \<Rightarrow> automation \<Rightarrow> string option \<Rightarrow> AutomationExecutionResult comp" where
  "executeEmailAutomation_try env automation clientEmail =
     (let config = configOf automation;
          emailMessage = orDefault (cfg_email_message config) '''';
          emailSubject = orDefault (orElse (cfg_email_subject config) (a_name automation))
                           ''Email from ClientFlowAI'';
          clientId = cfg_client_id config
      in if emailMessage = [] then throws ''Email message is required''
         else andThen (recipientOf env clientEmail clientId)
           (\<lambda>recipientEmail.
              if \<not> truthy recipientEmail
              then throws ''Client email is required. Please select a client or provide an email address.''
              else andThen (remote GetSession (session env))
                (\<lambda>session'.
                   if \<not> session' then throws ''User not authenticated''
                   else let body = \<lparr>to = the recipientEmail, subject = emailSubject,
                                      html = replaceNewlines emailMessage, text_part = emailMessage\<rparr>
                        in andThen (remote (Invoke ''send-email'' body) (invoke_send_email env body))
                          (\<lambda>(data', error).
                             if error \<noteq> None
                             then throws (orDefault (err_message (the error)) ''Failed to send email'')
                             else if data' = None \<or> \<not> sr_success (the data')
                             then throws (orDefault (case data' of None \<Rightarrow> None | Some d \<Rightarrow> sr_error d)
                                            ''Failed to send email'')
                             else returns
                               \<lparr>success = True,
                                message = orDefault (sr_message (the data')) ''Email sent successfully'',
                                data = JObj [(''sent'', JBool True),
                                             (''to'', JStr (the recipientEmail)),
                                             (''subject'', JStr emailSubject),
                                             (''emailId'', sr_id (the data'))]\<rparr>))))"

definition executeEmailAutomation ::
  "env \<Rightarrow> automation \<Rightarrow> string option \<Rightarrow> AutomationExecutionResult comp" where
  "executeEmailAutomation env automation clientEmail =
     tryCatch (executeEmailAutomation_try env automation clientEmail)
       (\<lambda>error. returns \<lparr>success = False,
                          message = messageOr error ''Failed to send email'',
                          data = JUndefined\<rparr>)"

text \<open>\<open>executeMeetingFollowUpAutomation\<close>\<close>

definition meetingHtml :: "string \<Rightarrow> string \<Rightarrow> string" where
  \<open>meetingHtml meetingName emailContent =
     [CHR 0x0A] @ ''      <div style="font-family: Arial, sans-serif; max-width: 600px; margin: 0 auto;">''
     @ [CHR 0x0A] @ ''        <h2 style="color: #333;">Follow-up: '' @ meetingName @ ''</h2>''
     @ [CHR 0x0A] @ ''        <div style="margin-top: 20px; line-height: 1.6;">''
     @ [CHR 0x0A] @ ''          '' @ replaceNewlines emailContent
     @ [CHR 0x0A] @ ''        </div>''
     @ [CHR 0x0A] @ ''      </div>''
     @ [CHR 0x0A] @ ''    ''\<close>

definition executeMeetingFollowUpAutomation_try ::
  "env \<Rightarrow> automation \<Rightarrow> string option \<Rightarrow> AutomationExecutionResult comp" where
  "executeMeetingFollowUpAutomation_try env automation clientEmail =
     (let config = configOf automation;
          meetingName = orDefault (cfg_meeting_name config) '''';
          emailContent = orDefault (cfg_email_content config) '''';
          clientId = cfg_client_id config
      in if meetingName = [] \<or> emailContent = []
         then throws ''Meeting name and email content are required''
         else andThen (recipientOf env clientEmail clientId)
           (\<lambda>recipientEmail.
              if \<not> truthy recipientEmail
              then throws ''Client email is required. Please select a client or provide an email address.''
              else andThen (remote GetSession (session env))
                (\<lambda>session'.
                   if \<not> session' then throws ''User not authenticated''
                   else let emailSubject = ''Follow-up: '' @ meetingName;
                            body = \<lparr>to = the recipientEmail, subject = emailSubject,
                                      html = meetingHtml meetingName emailContent,
                                      text_part = emailContent\<rparr>
                        in andThen (remote (Invoke ''send-email'' body) (invoke_send_email env body))
                          (\<lambda>(data', error).
                             if error \<noteq> None
                             then throws (orDefault (err_message (the error))
                                            ''Failed to send meeting follow-up email'')
                             else if data' = None \<or> \<not> sr_success (the data')
                             then throws (orDefault (case data' of None \<Rightarrow> None | Some d \<Rightarrow> sr_error d)
                                            ''Failed to send meeting follow-up email'')
                             else returns
                               \<lparr>success = True,
                                message = orDefault (sr_message (the data'))
                                            (''Meeting follow-up email sent for '' @ [CHR 0x22] @ meetingName @ [CHR 0x22]),
                                data = JObj [(''sent'', JBool True),
                                             (''to'', JStr (the recipientEmail)),
                                             (''meetingName'', JStr meetingName),
                                             (''emailId'', sr_id (the data'))]\<rparr>))))"

definition executeMeetingFollowUpAutomation ::
  "env \<Rightarrow> automation \<Rightarrow> string option \<Rightarrow> AutomationExecutionResult comp" where
  "executeMeetingFollowUpAutomation env automation clientEmail =
     tryCatch (executeMeetingFollowUpAutomation_try env automation clientEmail)
       (\<lambda>error. returns \<lparr>success = False,
                          message = messageOr error ''Failed to send meeting follow-up email'',
                          data = JUndefined\<rparr>)"

text \<open>
  \<open>executeAIClientSummaryAutomation\<close>. The deals, interactions and prioritization of the
  client are fetched and formatted into the prompt; the prompt text is not modelled (the
  formatting throws nothing on the arrays or \<open>null\<close> that the queries give), the three
  queries are. The URL is that of the chat-completion endpoint.
\<close>

definition completionsUrl :: string where
  "completionsUrl = ''https://api.openai.com/v1/chat/completions''"

text \<open>The lookup of the client by \<open>client_id\<close>, and by \<open>id\<close> when the first lookup
  finds no row (code \<open>PGRST116\<close>).\<close>

definition lookupClient :: "env \<Rightarrow> string \<Rightarrow> (client_row option \<times> error_object option) comp" where
  "lookupClient env clientId =
     andThen
       (remote (SelectSingle Clients ''*'' [(''client_id'', clientId)])
               (select_client env ''client_id'' clientId))
       (\<lambda>(client0, clientError0).
          if clientError0 \<noteq> None \<and> err_code (the clientError0) = Some ''PGRST116''
          then andThen
                 (remote (SelectSingle Clients ''*'' [(''id'', clientId)])
                         (select_client env ''id'' clientId))
                 (\<lambda>(clientById, errorById).
                    if errorById = None \<and> clientById \<noteq> None
                    then returns (clientById, None)
                    else returns (client0, clientError0))
          else returns (client0, clientError0))"

definition executeAIClientSummaryAutomation_try ::
  "env \<Rightarrow> automation \<Rightarrow> AutomationExecutionResult comp" where
  "executeAIClientSummaryAutomation_try env automation =
     (let config = configOf automation;
          clientId = cfg_client_id config
      in if \<not> truthy clientId then throws ''Client ID is required''
         else andThen (lookupClient env (the clientId))
           (\<lambda>(client, clientError).
              if clientError \<noteq> None \<or> client = None
              then throws (clientNotFound clientError)
              else
                let clientData = the client;
                    actualClientId = orDefault (orElse (c_client_id clientData) (c_id clientData))
                                       (the clientId);
                    clientName = orDefault (orElse (c_name clientData) (c_client_name clientData))
                                   ''Unknown''
                in andThen (remote (SelectMany Deals ''*'' [(''client_id'', actualClientId)]) ())
                  (\<lambda>_. andThen (remote (SelectMany Interactions ''*'' [(''client_id'', actualClientId)]) ())
                  (\<lambda>_. andThen (remote (SelectSingle ClientPrioritizations ''*''
                                           [(''client_id'', actualClientId)]) ())
                  (\<lambda>_. case getOpenAIApiKey (api_key_var env) of
                          Inl e \<Rightarrow> throws e
                        | Inr openAIApiKey \<Rightarrow>
                            if openAIApiKey = []
                            then throws ''OpenAI API key is not configured. Please set VITE_OPENAI_API_KEY in your environment variables.''
                            else andThen (remote (Fetch completionsUrl) (fetch_summary env))
                              (\<lambda>response.
                                 case response of
                                   FetchRejected e \<Rightarrow> throws e
                                 | NotOk (Inl e) \<Rightarrow> throws e
                                 | NotOk (Inr m) \<Rightarrow>
                                     throws (orDefault m ''Failed to generate AI summary'')
                                 | Ok (Inl e) \<Rightarrow> throws e
                                 | Ok (Inr content) \<Rightarrow>
                                     returns
                                       \<lparr>success = True,
                                        message = ''AI client summary generated successfully'',
                                        data = JObj
                                          [(''clientId'', JStr actualClientId),
                                           (''clientName'', JStr clientName),
                                           (''summary'', JStr (orDefault content ''No summary generated'')),
                                           (''generatedAt'', JStr (now env))]\<rparr>))))))"

definition executeAIClientSummaryAutomation ::
  "env \<Rightarrow> automation \<Rightarrow> AutomationExecutionResult comp" where
  "executeAIClientSummaryAutomation env automation =
     tryCatch (executeAIClientSummaryAutomation_try env automation)
       (\<lambda>error. returns \<lparr>success = False,
                          message = messageOr error ''Failed to generate AI summary'',
                          data = JUndefined\<rparr>)"

text \<open>
  The second copy of the executor in the repository has the same \<open>executeAutomation\<close> and
  the same summary handler (with another token limit in the request), but email and meeting
  handlers that only simulate the send: they call nothing remote, and the email handler
  returns early when \<open>config.email_send_date\<close> is in the future.
\<close>

definition executeEmailAutomation_simulated_try ::
  "env \<Rightarrow> automation \<Rightarrow> string option \<Rightarrow> AutomationExecutionResult comp" where
  "executeEmailAutomation_simulated_try env automation clientEmail =
     (let config = configOf automation;
          emailMessage = orDefault (cfg_email_message config) '''';
          emailSendDate = orDefault (cfg_email_send_date config) ''''
      in if emailMessage = [] then throws ''Email message is required''
         else if emailSendDate \<noteq> [] \<and>
                 (case parse_date env emailSendDate of
                    None \<Rightarrow> False
                  | Some sendDate \<Rightarrow> sendDate > now_ms env)
         then returns
                \<lparr>success = True,
                 message = ''Email scheduled for '' @ locale_string env (the (parse_date env emailSendDate)),
                 data = JObj [(''scheduled'', JBool True), (''sendDate'', JStr emailSendDate)]\<rparr>
         else returns
                \<lparr>success = True,
                 message = ''Email sent successfully'',
                 data = JObj [(''sent'', JBool True), (''to'', asVal clientEmail),
                              (''message'', JStr emailMessage)]\<rparr>)"

definition executeEmailAutomation_simulated ::
  "env \<Rightarrow> automation \<Rightarrow> string option \<Rightarrow> AutomationExecutionResult comp" where
  "executeEmailAutomation_simulated env automation clientEmail =
     tryCatch (executeEmailAutomation_simulated_try env automation clientEmail)
       (\<lambda>error. returns \<lparr>success = False,
                          message = messageOr error ''Failed to send email'',
                          data = JUndefined\<rparr>)"

definition executeMeetingFollowUpAutomation_simulated_try ::
  "env \<Rightarrow> automation \<Rightarrow> string option \<Rightarrow> AutomationExecutionResult comp" where
  "executeMeetingFollowUpAutomation_simulated_try env automation clientEmail =
     (let config = configOf automation;
          meetingName = orDefault (cfg_meeting_name config) '''';
          emailContent = orDefault (cfg_email_content config) ''''
      in if meetingName = [] \<or> emailContent = []
         then throws ''Meeting name and email content are required''
         else returns
                \<lparr>success = True,
                 message = ''Meeting follow-up email sent for '' @ [CHR 0x22] @ meetingName @ [CHR 0x22],
                 data = JObj [(''sent'', JBool True), (''to'', asVal clientEmail),
                              (''meetingName'', JStr meetingName),
                              (''emailContent'', JStr emailContent)]\<rparr>)"

definition executeMeetingFollowUpAutomation_simulated ::
  "env \<Rightarrow> automation \<Rightarrow> string option \<Rightarrow> AutomationExecutionResult comp" where
  "executeMeetingFollowUpAutomation_simulated env automation clientEmail =
     tryCatch (executeMeetingFollowUpAutomation_simulated_try env automation clientEmail)
       (\<lambda>error. returns \<lparr>success = False,
                          message = messageOr error ''Failed to send meeting follow-up email'',
                          data = JUndefined\<rparr>)"

subsection \<open>executeAutomation\<close>

text \<open>
  \<open>executeAutomation\<close> is the same text in both copies of the executor; it is modelled
  once, over the three handlers it calls, and instantiated with each copy's handlers. The
  second argument of the source, \<open>options\<close>, is only read as \<open>options?.clientEmail\<close>.
  After the insert the source logs the error, or else \<open>run.id\<close>: with neither an error nor
  a row that read throws, outside the \<open>try\<close> block.
\<close>

record handlers =
  emailHandler :: "env \<Rightarrow> automation \<Rightarrow> string option \<Rightarrow> AutomationExecutionResult comp"
  meetingHandler :: "env \<Rightarrow> automation \<Rightarrow> string option \<Rightarrow> AutomationExecutionResult comp"
  summaryHandler :: "env \<Rightarrow> automation \<Rightarrow> AutomationExecutionResult comp"

text \<open>The \<open>switch\<close> on \<open>automation.action_type_type || automation.action_type\<close>.\<close>

definition actionTypeOf :: "automation \<Rightarrow> nstr" where
  "actionTypeOf automation = orElseN (a_action_type_type automation) (a_action_type automation)"

definition runHandler ::
  "handlers \<Rightarrow> env \<Rightarrow> automation \<Rightarrow> string option \<Rightarrow> AutomationExecutionResult comp" where
  "runHandler hs env automation clientEmail =
     (if actionTypeOf automation = Str ''email''
      then emailHandler hs env automation clientEmail
      else if actionTypeOf automation = Str ''meeting''
      then meetingHandler hs env automation clientEmail
      else if actionTypeOf automation = Str ''ai-summary''
      then summaryHandler hs env automation
      else returns
             \<lparr>success = False,
              message = ''Unknown automation type: '' @ String' (actionTypeOf automation),
              data = JUndefined\<rparr>)"

definition runInsert :: "env \<Rightarrow> automation \<Rightarrow> (string \<times> jsval) list" where
  "runInsert env automation =
     [(''automation_id'', valOf (orElseN (a_automation_id automation) (a_id automation))),
      (''user_id'', JNull),
      (''automation_status'', JStr ''running''),
      (''started_at'', JStr (now env)),
      (''finished_at'', JNull)]"

definition updateData :: "env \<Rightarrow> automation \<Rightarrow> AutomationExecutionResult \<Rightarrow> (string \<times> jsval) list" where
  "updateData env automation result =
     [(''automation_status'', JStr (if success result then ''completed'' else ''failed'')),
      (''error_message'', if success result then JNull else JStr (message result)),
      (''finished_at'', JStr (now env))]
     @ (if success result \<and> truthyVal (data result)
           \<and> (a_action_type_type automation = Str ''ai-summary''
                \<or> a_action_type automation = Str ''ai-summary'')
        then [(''result_data'', data result)] else [])"

definition failedData :: "env \<Rightarrow> string \<Rightarrow> (string \<times> jsval) list" where
  "failedData env error =
     [(''automation_status'', JStr ''failed''),
      (''error_message'', JStr error),
      (''finished_at'', JStr (now env))]"

text \<open>\<open>if (run) { await ...update(payload).eq("id", run.id) }\<close>\<close>

definition updateRun :: "run_row option \<Rightarrow> (string \<times> jsval) list \<Rightarrow> unit comp" where
  "updateRun run payload =
     (case run of
        None \<Rightarrow> returns ()
      | Some r \<Rightarrow> remote (UpdateRow AutomationRuns payload [(''id'', run_id r)]) ())"

definition executeAutomationWith ::
  "handlers \<Rightarrow> env \<Rightarrow> automation \<Rightarrow> string option \<Rightarrow> AutomationExecutionResult comp" where
  "executeAutomationWith hs env automation clientEmail =
     (if \<not> isTrue (a_is_enabled automation) \<and> \<not> isTrue (a_is_active automation)
      then returns \<lparr>success = False, message = ''Automation is disabled'', data = JUndefined\<rparr>
      else andThen
        (remote (InsertRow AutomationRuns (runInsert env automation))
                (insert_run env (runInsert env automation)))
        (\<lambda>(run, runError).
           andThen
             (if runError \<noteq> None then returns ()
              else (case run of
                      None \<Rightarrow> throws (readOfNull ''id'')
                    | Some r \<Rightarrow> returns ()))
             (\<lambda>_. tryCatch
                     (andThen (runHandler hs env automation clientEmail)
                        (\<lambda>result. andThen (updateRun run (updateData env automation result))
                                     (\<lambda>_. returns result)))
                     (\<lambda>error. andThen (updateRun run (failedData env error))
                                  (\<lambda>_. returns \<lparr>success = False,
                                                    message = messageOr error ''Failed to execute automation'',
                                                    data = JUndefined\<rparr>)))))"

definition sendingHandlers :: handlers where
  "sendingHandlers =
     \<lparr>emailHandler = executeEmailAutomation,
      meetingHandler = executeMeetingFollowUpAutomation,
      summaryHandler = executeAIClientSummaryAutomation\<rparr>"

definition simulatingHandlers :: handlers where
  "simulatingHandlers =
     \<lparr>emailHandler = executeEmailAutomation_simulated,
      meetingHandler = executeMeetingFollowUpAutomation_simulated,
      summaryHandler = executeAIClientSummaryAutomation\<rparr>"

text \<open>The handlers of the two copies of the executor.\<close>

definition repositoryHandlers :: "handlers set" where
  "repositoryHandlers = {sendingHandlers, simulatingHandlers}"

definition executeAutomation ::
  "env \<Rightarrow> automation \<Rightarrow> string option \<Rightarrow> AutomationExecutionResult comp" where
  "executeAutomation = executeAutomationWith sendingHandlers"

definition executeAutomation_simulated ::
  "env \<Rightarrow> automation \<Rightarrow> string option \<Rightarrow> AutomationExecutionResult comp" where
  "executeAutomation_simulated = executeAutomationWith simulatingHandlers"

section \<open>The data hooks\<close>

text \<open>
  A row of a table is a function from column names to values (\<open>undefined\<close> where the row
  has no such column); \<open>{...row, k: v}\<close> is a function update. An object that is sent is a
  list of its fields. The backend answers a query with rows and a write with the row
  written, each with an error or none. When a hook throws the error object it received,
  the message of that object stands for it. A hook is modelled by the function it gives to
  the query library (its \<open>queryFn\<close> or \<open>mutationFn\<close>) on the id of the signed-in user, if
  any; the library's cache and its invalidation are not modelled.
\<close>

type_synonym row = "string \<Rightarrow> jsval"

record backend =
  b_now :: string
  b_JSON_parse :: "string \<Rightarrow> string + jsval"
  select_rows :: "event \<Rightarrow> row list option \<times> error_object option"
  write_row :: "event \<Rightarrow> row option \<times> error_object option"

definition errorText :: "error_object \<Rightarrow> string" where
  "errorText e = orDefault (err_message e) ''''"

definition rowsOr :: "row list option \<Rightarrow> row list" where
  "rowsOr d = (case d of None \<Rightarrow> [] | Some rows \<Rightarrow> rows)"

text \<open>\<open>{...a, ...b}\<close> on field lists: the fields of \<open>b\<close> replace those of \<open>a\<close>.\<close>

definition spread :: "(string \<times> jsval) list \<Rightarrow> (string \<times> jsval) list \<Rightarrow> (string \<times> jsval) list" where
  "spread a b = filter (\<lambda>(k, v). k \<notin> fst ` set b) a @ b"

subsection \<open>useClients.tsx\<close>

definition mapClient :: "row \<Rightarrow> row" where
  "mapClient client =
     client
       (''id'' := orVal (client ''client_id'') (client ''id''),
        ''source'' := orVal (orVal (client ''source'') (client ''lead_source'')) JNull,
        ''status'' := orVal (orVal (client ''priority'') (client ''status'')) JNull)"

definition useClients :: "backend \<Rightarrow> string option \<Rightarrow> (row list) comp" where
  "useClients b userId =
     (if \<not> truthy userId then returns []
      else andThen
        (remote (SelectMany Clients ''*'' [(''user_id'', the userId)])
                (select_rows b (SelectMany Clients ''*'' [(''user_id'', the userId)])))
        (\<lambda>(data', error).
           if error \<noteq> None then throws (errorText (the error))
           else returns (map mapClient (rowsOr data'))))"

definition useCreateClient :: "backend \<Rightarrow> string option \<Rightarrow> (string \<times> jsval) list \<Rightarrow> (row option) comp" where
  "useCreateClient b userId client =
     (if \<not> truthy userId then throws ''User must be authenticated to create a client''
      else let payload = spread client
                 [(''user_id'', JStr (the userId)),
                  (''created_at'', JStr (b_now b)),
                  (''updated_at'', JStr (b_now b)),
                  (''last_contact'', JStr (b_now b))]
           in andThen (remote (InsertRow Clients payload) (write_row b (InsertRow Clients payload)))
             (\<lambda>(data', error).
                if error \<noteq> None then throws (errorText (the error)) else returns data'))"

definition useUpdateClient :: "backend \<Rightarrow> string \<Rightarrow> (string \<times> jsval) list \<Rightarrow> (row option) comp" where
  "useUpdateClient b id' updates =
     (let updateData' = spread updates [(''updated_at'', JStr (b_now b))];
          ev = UpdateRow Clients updateData' [(''client_id'', id')]
      in andThen (remote ev (write_row b ev))
           (\<lambda>(data', error).
              if error \<noteq> None then throws (errorText (the error)) else returns data'))"

definition useDeleteClient :: "backend \<Rightarrow> string \<Rightarrow> unit comp" where
  "useDeleteClient b id' =
     andThen (remote (DeleteRow Clients [(''client_id'', id')])
                     (write_row b (DeleteRow Clients [(''client_id'', id')])))
       (\<lambda>(data', error).
          if error \<noteq> None then throws (errorText (the error)) else returns ())"

subsection \<open>useDeals.tsx\<close>

definition useDeals :: "backend \<Rightarrow> string option \<Rightarrow> (row list) comp" where
  "useDeals b userId =
     (if \<not> truthy userId then returns []
      else andThen
        (remote (SelectMany Deals ''*, clients(name)'' [(''user_id'', the userId)])
                (select_rows b (SelectMany Deals ''*, clients(name)'' [(''user_id'', the userId)])))
        (\<lambda>(data', error).
           if error \<noteq> None then throws (errorText (the error))
           else returns (rowsOr data')))"

definition useCreateDeal :: "backend \<Rightarrow> string option \<Rightarrow> (string \<times> jsval) list \<Rightarrow> (row option) comp" where
  "useCreateDeal b userId deal =
     (if \<not> truthy userId then throws ''User not authenticated''
      else let payload = spread deal [(''user_id'', JStr (the userId))]
           in andThen (remote (InsertRow Deals payload) (write_row b (InsertRow Deals payload)))
             (\<lambda>(data', error).
                if error \<noteq> None then throws (errorText (the error)) else returns data'))"

definition useUpdateDeal ::
  "backend \<Rightarrow> string option \<Rightarrow> string \<Rightarrow> (string \<times> jsval) list \<Rightarrow> (row option) comp" where
  "useUpdateDeal b userId id' updates =
     (if \<not> truthy userId then throws ''User not authenticated''
      else let ev = UpdateRow Deals updates [(''id'', id'), (''user_id'', the userId)]
           in andThen (remote ev (write_row b ev))
             (\<lambda>(data', error).
                if error \<noteq> None then throws (errorText (the error)) else returns data'))"

definition useDeleteDeal :: "backend \<Rightarrow> string option \<Rightarrow> string \<Rightarrow> unit comp" where
  "useDeleteDeal b userId id' =
     (if \<not> truthy userId then throws ''User not authenticated''
      else let ev = DeleteRow Deals [(''id'', id'), (''user_id'', the userId)]
           in andThen (remote ev (write_row b ev))
             (\<lambda>(data', error).
                if error \<noteq> None then throws (errorText (the error)) else returns ()))"

subsection \<open>useAutomations.tsx\<close>

text \<open>\<open>typeof config === 'string' ? JSON.parse(config || '{}') : (config || {})\<close>\<close>

definition parseConfig :: "(string \<Rightarrow> string + jsval) \<Rightarrow> jsval \<Rightarrow> string + jsval" where
  "parseConfig parse config' =
     (case config' of
        JStr c \<Rightarrow> parse (if c \<noteq> [] then c else ''{}'')
      | v \<Rightarrow> Inr (orVal v (JObj [])))"

definition mapAutomation :: "(string \<Rightarrow> string + jsval) \<Rightarrow> row \<Rightarrow> string + row" where
  "mapAutomation parse automation =
     (case parseConfig parse (automation ''config'') of
        Inl e \<Rightarrow> Inl e
      | Inr config' \<Rightarrow>
          Inr (automation
                 (''id'' := automation ''automation_id'',
                  ''action_type'' := automation ''action_type_type'',
                  ''is_active'' := automation ''is_enabled'',
                  ''config'' := config')))"

text \<open>\<open>Array.prototype.map\<close> with a callback that may throw: the first throw ends the map.\<close>

fun mapThrowing :: "('a \<Rightarrow> string + 'b) \<Rightarrow> 'a list \<Rightarrow> string + 'b list" where
  "mapThrowing f [] = Inr []"
| "mapThrowing f (x # xs) =
     (case f x of
        Inl e \<Rightarrow> Inl e
      | Inr y \<Rightarrow> (case mapThrowing f xs of Inl e \<Rightarrow> Inl e | Inr ys \<Rightarrow> Inr (y # ys)))"

definition useAutomations :: "backend \<Rightarrow> (row list) comp" where
  "useAutomations b =
     andThen (remote (SelectMany Automations ''*'' []) (select_rows b (SelectMany Automations ''*'' [])))
       (\<lambda>(data', error).
          if error \<noteq> None then throws (errorText (the error))
          else (case mapThrowing (mapAutomation (b_JSON_parse b)) (rowsOr data') of
                  Inl e \<Rightarrow> throws e
                | Inr rows \<Rightarrow> returns rows))"

text \<open>The row that the create and update hooks return, mapped back to the interface;
  the update hook leaves \<open>config\<close> out.\<close>

definition definedOr :: "jsval \<Rightarrow> jsval \<Rightarrow> jsval" where
  "definedOr a b = (if a \<noteq> JUndefined then a else b)"

definition automationOfRow :: "row \<Rightarrow> (string \<times> jsval) list" where
  "automationOfRow automationData =
     [(''automation_id'', orVal (automationData ''automation_id'') (automationData ''id'')),
      (''id'', orVal (automationData ''automation_id'') (automationData ''id'')),
      (''user_id'', automationData ''user_id''),
      (''name'', automationData ''name''),
      (''description'', automationData ''description''),
      (''action_type_type'', orVal (automationData ''action_type_type'') (automationData ''action_type'')),
      (''action_type'', orVal (automationData ''action_type_type'') (automationData ''action_type'')),
      (''is_enabled'', definedOr (automationData ''is_enabled'') (automationData ''is_active'')),
      (''is_active'', definedOr (automationData ''is_enabled'') (automationData ''is_active''))]"

definition useCreateAutomation ::
  "backend \<Rightarrow> string option \<Rightarrow> row \<Rightarrow> ((string \<times> jsval) list) comp" where
  "useCreateAutomation b userId automation =
     (if \<not> truthy userId then throws ''User must be authenticated to create an automation''
      else let dbAutomation =
                 [(''name'', automation ''name''),
                  (''description'', automation ''description''),
                  (''trigger_type'', orVal (automation ''trigger_type'') JNull),
                  (''action_type_type'',
                     orVal (automation ''action_type_type'') (automation ''action_type'')),
                  (''is_enabled'',
                     definedOr (automation ''is_enabled'')
                       (definedOr (automation ''is_active'') (JBool True))),
                  (''config'', orVal (automation ''config'') (JObj [])),
                  (''user_id'', JNull),
                  (''created_at'', JStr (b_now b)),
                  (''updated_at'', JStr (b_now b))]
           in andThen (remote (InsertRow Automations dbAutomation)
                              (write_row b (InsertRow Automations dbAutomation)))
             (\<lambda>(data', error).
                if error \<noteq> None then throws (errorText (the error))
                else (case data' of
                        None \<Rightarrow> throws (readOfNull ''config'')
                      | Some automationData \<Rightarrow>
                          (case parseConfig (b_JSON_parse b) (automationData ''config'') of
                             Inl e \<Rightarrow> throws e
                           | Inr config' \<Rightarrow>
                               returns (automationOfRow automationData
                                        @ [(''config'', config'),
                                           (''created_at'', automationData ''created_at''),
                                           (''updated_at'', automationData ''updated_at'')])))))"

definition useUpdateAutomation ::
  "backend \<Rightarrow> string option \<Rightarrow> string option \<Rightarrow> row \<Rightarrow> ((string \<times> jsval) list) comp" where
  "useUpdateAutomation b id' automation_id updates =
     (let targetId = orElse automation_id id'
      in if \<not> truthy targetId then throws ''Automation ID is required''
         else let dbUpdates =
                    [(''updated_at'', JStr (b_now b))]
                    @ (if updates ''name'' \<noteq> JUndefined then [(''name'', updates ''name'')] else [])
                    @ (if updates ''description'' \<noteq> JUndefined
                       then [(''description'', updates ''description'')] else [])
                    @ (if updates ''action_type_type'' \<noteq> JUndefined
                       then [(''action_type_type'', updates ''action_type_type'')]
                       else if updates ''action_type'' \<noteq> JUndefined
                       then [(''action_type_type'', updates ''action_type'')] else [])
                    @ (if updates ''is_enabled'' \<noteq> JUndefined
                       then [(''is_enabled'', updates ''is_enabled'')]
                       else if updates ''is_active'' \<noteq> JUndefined
                       then [(''is_enabled'', updates ''is_active'')] else []);
                  ev = UpdateRow Automations dbUpdates [(''automation_id'', the targetId)]
              in andThen (remote ev (write_row b ev))
                (\<lambda>(data', error).
                   if error \<noteq> None then throws (errorText (the error))
                   else (case data' of
                           None \<Rightarrow> throws (readOfNull ''automation_id'')
                         | Some automationData \<Rightarrow>
                             returns (automationOfRow automationData
                                      @ [(''created_at'', automationData ''created_at''),
                                         (''updated_at'', automationData ''updated_at'')]))))"

text \<open>\<open>useDeleteAutomation\<close>: the runs of the automation are deleted first (an error of that
  delete is only logged), then the automation.\<close>

definition useDeleteAutomation :: "backend \<Rightarrow> string \<Rightarrow> unit comp" where
  "useDeleteAutomation b id' =
     andThen (remote (DeleteRow AutomationRuns [(''automation_id'', id')])
                     (write_row b (DeleteRow AutomationRuns [(''automation_id'', id')])))
       (\<lambda>(runsData, runsError).
          andThen (remote (DeleteRow Automations [(''automation_id'', id')])
                          (write_row b (DeleteRow Automations [(''automation_id'', id')])))
            (\<lambda>(data', error).
               if error \<noteq> None then throws (errorText (the error)) else returns ()))"

subsection \<open>useAutomationRuns.tsx\<close>

definition parseResultData :: "(string \<Rightarrow> string + jsval) \<Rightarrow> row \<Rightarrow> row" where
  "parseResultData parse runData =
     (case runData ''result_data'' of
        JStr s \<Rightarrow>
          (if s \<noteq> []
           then (case parse s of Inl e \<Rightarrow> runData | Inr v \<Rightarrow> runData(''result_data'' := v))
           else runData)
      | v \<Rightarrow> runData)"

definition useLatestAutomationRun :: "backend \<Rightarrow> string option \<Rightarrow> string option \<Rightarrow> (row option) comp" where
  "useLatestAutomationRun b automationId userId =
     (if \<not> truthy automationId \<or> \<not> truthy userId then returns None
      else let ev = SelectMany AutomationRuns ''*''
                      [(''automation_id'', the automationId), (''automation_status'', ''completed'')]
           in andThen (remote ev (select_rows b ev))
             (\<lambda>(data', error).
                if error \<noteq> None
                then (if err_code (the error) = Some ''PGRST116'' then returns None
                      else throws (errorText (the error)))
                else (case rowsOr data' of
                        [] \<Rightarrow> returns None
                      | runData # rest \<Rightarrow> returns (Some (parseResultData (b_JSON_parse b) runData)))))"

definition useAutomationRuns :: "backend \<Rightarrow> string option \<Rightarrow> string option \<Rightarrow> (row list) comp" where
  "useAutomationRuns b automationId userId =
     (if \<not> truthy automationId \<or> \<not> truthy userId then returns []
      else let ev = SelectMany AutomationRuns ''*'' [(''automation_id'', the automationId)]
           in andThen (remote ev (select_rows b ev))
             (\<lambda>(data', error).
                if error \<noteq> None then throws (errorText (the error))
                else returns (rowsOr data')))"

section \<open>PriorityClients.tsx\<close>

text \<open>
  The clients are those of \<open>useClients\<close>, typed by the \<open>Client\<close> interface; of a client
  the computation reads \<open>id\<close> and \<open>status\<close> and passes every other field on (the record
  is extensible). Of a deal it reads \<open>client_id\<close> and \<open>clients?.id\<close>, which is \<open>undefined\<close>
  when the deal has no \<open>clients\<close>.
\<close>

record client =
  cl_id :: nstr
  cl_status :: "string option"

record deal =
  d_client_id :: nstr
  d_clients_id :: nstr

record priority_client = client +
  pc_deals :: nat
  pc_priority :: string

definition clientDeals :: "deal list \<Rightarrow> 'a client_scheme \<Rightarrow> deal list" where
  "clientDeals deals client =
     filter (\<lambda>deal. let dealClientId = orElseN (d_client_id deal) (d_clients_id deal)
                     in String' dealClientId = String' (cl_id client)) deals"

definition withDeals :: "deal list \<Rightarrow> client \<Rightarrow> priority_client" where
  "withDeals deals client =
     client.extend client
       \<lparr>pc_deals = length (clientDeals deals client),
        pc_priority = orDefault (cl_status client) ''medium''\<rparr>"

text \<open>
  \<open>priorityOrder[key]\<close> on the object literal \<open>{ high: 3, medium: 2, low: 1 }\<close>: the value of
  an own property, or the property of that name which every object inherits from
  \<open>Object.prototype\<close> (a function or an object, never a number), or \<open>undefined\<close>.
\<close>

datatype looked_up = Number int | Inherited string

definition objectPrototypeKeys :: "string list" where
  "objectPrototypeKeys =
     [''constructor'', ''__defineGetter__'', ''__defineSetter__'', ''hasOwnProperty'',
      ''__lookupGetter__'', ''__lookupSetter__'', ''isPrototypeOf'', ''propertyIsEnumerable'',
      ''toString'', ''valueOf'', ''__proto__'', ''toLocaleString'']"

definition priorityOrder :: "string \<Rightarrow> looked_up option" where
  "priorityOrder key =
     (if key = ''high'' then Some (Number 3)
      else if key = ''medium'' then Some (Number 2)
      else if key = ''low'' then Some (Number 1)
      else if key \<in> set objectPrototypeKeys then Some (Inherited key)
      else None)"

text \<open>\<open>priorityOrder[p] || 2\<close>\<close>

definition priorityOf :: "string \<Rightarrow> looked_up" where
  "priorityOf p =
     (case priorityOrder p of
        None \<Rightarrow> Number 2
      | Some (Number n) \<Rightarrow> (if n \<noteq> 0 then Number n else Number 2)
      | Some (Inherited k) \<Rightarrow> Inherited k)"

text \<open>The comparison function; \<open>None\<close> is the result \<open>NaN\<close> of a subtraction with an operand
  that is not a number.\<close>

definition compareFn :: "priority_client \<Rightarrow> priority_client \<Rightarrow> int option" where
  "compareFn a b =
     (let aPriority = priorityOf (pc_priority a);
          bPriority = priorityOf (pc_priority b)
      in if bPriority \<noteq> aPriority
         then (case (bPriority, aPriority) of
                 (Number x, Number y) \<Rightarrow> Some (x - y)
               | _ \<Rightarrow> None)
         else Some (int (pc_deals b) - int (pc_deals a)))"

text \<open>
  \<open>Array.prototype.sort\<close> with a comparison function: a result \<open>NaN\<close> counts as \<open>+0\<close>, and
  the sort is stable. Where the comparison function is consistent on the elements of the
  array the sorted array is determined, and it is the one a stable insertion sort gives.
  Where it is not, the language leaves the order to the engine; \<open>sortBy\<close> then gives one of
  the possible orders (each element, from the last to the first, is put before the first
  element of the sorted rest that it does not follow), which need not be the engine's. On
  two elements whose comparison is \<open>NaN\<close> in both directions the comparison function is
  consistent, the two count as equal, and the sort keeps their order.
\<close>

definition sortCompare :: "('a \<Rightarrow> 'a \<Rightarrow> int option) \<Rightarrow> 'a \<Rightarrow> 'a \<Rightarrow> int" where
  "sortCompare comparefn x y = (case comparefn x y of None \<Rightarrow> 0 | Some v \<Rightarrow> v)"

fun insertBy :: "('a \<Rightarrow> 'a \<Rightarrow> int option) \<Rightarrow> 'a \<Rightarrow> 'a list \<Rightarrow> 'a list" where
  "insertBy comparefn x [] = [x]"
| "insertBy comparefn x (y # ys) =
     (if sortCompare comparefn x y \<le> 0 then x # y # ys else y # insertBy comparefn x ys)"

definition sortBy :: "('a \<Rightarrow> 'a \<Rightarrow> int option) \<Rightarrow> 'a list \<Rightarrow> 'a list" where
  "sortBy comparefn xs = foldr (insertBy comparefn) xs []"

definition priorityClients :: "client list \<Rightarrow> deal list \<Rightarrow> priority_client list" where
  "priorityClients clients deals = take 5 (sortBy compareFn (map (withDeals deals) clients))"

text \<open>The rank as the specification words it: high is 3, medium 2, low 1, and any missing
  or unrecognized priority 2.\<close>

definition spec_rank :: "string option \<Rightarrow> int" where
  "spec_rank status =
     (if status = Some ''high'' then 3
      else if status = Some ''medium'' then 2
      else if status = Some ''low'' then 1
      else 2)"

text \<open>The order of the specification: non-increasing rank, and among equal ranks
  non-increasing count of deals.\<close>

definition spec_before :: "priority_client \<Rightarrow> priority_client \<Rightarrow> bool" where
  "spec_before a b =
     (spec_rank (cl_status a) > spec_rank (cl_status b)
      \<or> (spec_rank (cl_status a) = spec_rank (cl_status b) \<and> pc_deals a \<ge> pc_deals b))"

section \<open>Reading a trace\<close>

text \<open>The writes among the events, and the values of \<open>automation_status\<close> that a trace
  writes to \<open>automation_runs\<close>, in order.\<close>

fun isWrite :: "event \<Rightarrow> bool" where
  "isWrite (InsertRow t p) = True"
| "isWrite (UpdateRow t p f) = True"
| "isWrite (DeleteRow t f) = True"
| "isWrite e = False"

fun statusWritten :: "event \<Rightarrow> jsval list" where
  "statusWritten (InsertRow t p) =
     (if t = AutomationRuns then (case map_of p ''automation_status'' of None \<Rightarrow> [] | Some v \<Rightarrow> [v])
      else [])"
| "statusWritten (UpdateRow t p f) =
     (if t = AutomationRuns then (case map_of p ''automation_status'' of None \<Rightarrow> [] | Some v \<Rightarrow> [v])
      else [])"
| "statusWritten e = []"

definition statusesWritten :: "event list \<Rightarrow> jsval list" where
  "statusesWritten tr = concat (map statusWritten tr)"

text \<open>
  The place of a call in the pipeline: the insert of the run, the lookup of the client by
  \<open>client_id\<close> and by \<open>id\<close>, the three queries of the summary, the session, the send or the
  HTTP call, and the update of the run. Calls the pipeline never makes have place 0.
\<close>

fun stage :: "event \<Rightarrow> nat" where
  "stage (InsertRow t p) = (if t = AutomationRuns then 1 else 0)"
| "stage (SelectSingle t c f) =
     (if t = Clients then (if map fst f = [''id''] then 3 else 2)
      else if t = ClientPrioritizations then 6 else 0)"
| "stage (SelectMany t c f) = (if t = Deals then 4 else if t = Interactions then 5 else 0)"
| "stage GetSession = 7"
| "stage (Invoke n b) = 8"
| "stage (Fetch u) = 8"
| "stage (UpdateRow t p f) = (if t = AutomationRuns then 9 else 0)"
| "stage (DeleteRow t f) = 0"

section \<open>Example inputs\<close>

definition client_ada :: client_row where
  "client_ada = \<lparr>c_client_id = Some ''c1'', c_id = None, c_name = Some ''Ada'',
                  c_client_name = None, c_email = Some ''ada@example.com''\<rparr>"

definition env_ok :: env where
  "env_ok =
     \<lparr>now = ''2026-01-15T10:00:00.000Z'',
      now_ms = 1768471200000,
      parse_date = (\<lambda>s. if s = ''2026-02-01T09:00'' then Some 1769936400000 else None),
      locale_string = (\<lambda>t. ''2/1/2026, 9:00:00 AM''),
      api_key_var = Some ''sk-test'',
      select_client = (\<lambda>col v.
         if col = ''client_id'' \<and> v = ''c1'' then (Some client_ada, None)
         else (None, Some (ErrorObject (Some ''no rows'') (Some ''PGRST116'')))),
      session = True,
      invoke_send_email = (\<lambda>b. (Some \<lparr>sr_success = True, sr_error = None, sr_message = None,
                                         sr_id = JStr ''m1''\<rparr>, None)),
      fetch_summary = Ok (Inr (Some ''Summary text'')),
      insert_run = (\<lambda>p. (Some \<lparr>run_id = ''r1''\<rparr>, None))\<rparr>"

definition env_insert_fails :: env where
  "env_insert_fails =
     env_ok\<lparr>insert_run := (\<lambda>p. (None, Some (ErrorObject (Some ''permission denied'') (Some ''42501''))))\<rparr>"

definition automation_email :: automation where
  "automation_email =
     \<lparr>a_automation_id = Str ''a1'', a_id = Str ''a1'', a_name = Some ''Welcome'',
      a_action_type_type = Str ''email'', a_action_type = Str ''email'',
      a_is_enabled = Some True, a_is_active = Some True,
      a_config = Some (emptyConfig\<lparr>cfg_email_message := Some ''Hello'', cfg_client_id := Some ''c1''\<rparr>)\<rparr>"

definition automation_no_message :: automation where
  "automation_no_message = automation_email\<lparr>a_config := Some (emptyConfig\<lparr>cfg_client_id := Some ''c1''\<rparr>)\<rparr>"

definition automation_summary :: automation where
  "automation_summary =
     automation_email\<lparr>a_action_type_type := Str ''ai-summary'', a_action_type := Str ''ai-summary''\<rparr>"

definition automation_fax :: automation where
  "automation_fax = automation_email\<lparr>a_action_type_type := Str ''fax'', a_action_type := Str ''fax''\<rparr>"

definition automation_disabled :: automation where
  "automation_disabled = automation_email\<lparr>a_is_enabled := Some False, a_is_active := None\<rparr>"

text \<open>The calls a handler makes: in the order of the pipeline, at most six, none of them a
  write.\<close>

definition pipelineTrace :: "event list \<Rightarrow> bool" where
  "pipelineTrace tr =
     (sorted_wrt (<) (map stage tr) \<and> length tr \<le> 6
      \<and> (\<forall>e \<in> set tr. 2 \<le> stage e \<and> stage e \<le> 8 \<and> \<not> isWrite e))"

definition vision_env_example :: vision_env where
  "vision_env_example =
     \<lparr>VITE_OPENAI_API_KEY = Some '' sk-test '',
      fileToBase64 = Some ''aGVsbG8='',
      fetch_completion = Ok (Inr (Some ''{}'')),
      JSON_parse = (\<lambda>s. if s = ''{}''
                         then Inr (JObj [(''priority'', JStr '' HIGH''),
                                         (''sentiment'', JStr ''Medium ''),
                                         (''keywordsCount'', JNum 7)])
                         else Inl ''Unexpected token'')\<rparr>"

text \<open>Handlers of which the first throws: no handler of the repository does, and they serve
  to run the \<open>catch\<close> block of \<open>executeAutomation\<close>.\<close>

definition handlers_email_throws :: handlers where
  "handlers_email_throws = sendingHandlers\<lparr>emailHandler := (\<lambda>env automation clientEmail. throws ''boom'')\<rparr>"

definition env_no_session :: env where
  "env_no_session = env_ok\<lparr>session := False\<rparr>"

definition automation_no_config :: automation where
  "automation_no_config = automation_email\<lparr>a_config := None\<rparr>"

definition automation_meeting :: automation where
  "automation_meeting =
     automation_email
       \<lparr>a_action_type_type := Str ''meeting'', a_action_type := Str ''meeting'',
        a_config := Some (emptyConfig\<lparr>cfg_meeting_name := Some ''Kickoff'',
                                       cfg_email_content := Some ''Thanks'',
                                       cfg_client_id := Some ''c1''\<rparr>)\<rparr>"

definition env_fetch_rejects :: env where
  "env_fetch_rejects = env_ok\<lparr>fetch_summary := FetchRejected ''''\<rparr>"

text \<open>The rows a hook returned (none when it threw), and one column of a list of rows.\<close>

definition rowsOf :: "(row list) comp \<Rightarrow> row list" where
  "rowsOf m = (case fst m of Inl e \<Rightarrow> [] | Inr rows \<Rightarrow> rows)"

definition column :: "string \<Rightarrow> row list \<Rightarrow> jsval list" where
  "column k rows = map (\<lambda>r. r k) rows"

definition row_ada :: row where
  "row_ada =
     (\<lambda>k. JUndefined)
       (''client_id'' := JStr ''c1'', ''name'' := JStr ''Ada'', ''source'' := JStr '''',
        ''lead_source'' := JStr ''web'', ''priority'' := JStr ''high'', ''status'' := JStr ''low'')"

definition backend_example :: backend where
  "backend_example =
     \<lparr>b_now = ''2026-01-15T10:00:00.000Z'',
      b_JSON_parse = (\<lambda>s. if s = ''{}'' then Inr (JObj []) else Inl ''Unexpected token''),
      select_rows = (\<lambda>ev. if ev = SelectMany Clients ''*'' [(''user_id'', ''u1'')]
                            then (Some [row_ada], None) else (Some [], None)),
      write_row = (\<lambda>ev. (Some row_ada, None))\<rparr>"

definition env_other_run :: env where
  "env_other_run = env_ok\<lparr>insert_run := (\<lambda>p. (Some \<lparr>run_id = ''r2''\<rparr>, None))\<rparr>"

text \<open>A backend where the client is found by \<open>id\<close> and not by \<open>client_id\<close>.\<close>

definition env_found_by_id :: env where
  "env_found_by_id =
     env_ok\<lparr>select_client := (\<lambda>col v.
         if col = ''id'' \<and> v = ''c1'' then (Some client_ada, None)
         else (None, Some (ErrorObject (Some ''no rows'') (Some ''PGRST116''))))\<rparr>"

definition clients_example :: "client list" where
  "clients_example =
     [\<lparr>cl_id = Str ''1'', cl_status = Some ''constructor''\<rparr>,
      \<lparr>cl_id = Str ''2'', cl_status = Some ''high''\<rparr>]"

definition clients_plain :: "client list" where
  "clients_plain =
     [\<lparr>cl_id = Str ''1'', cl_status = Some ''low''\<rparr>,
      \<lparr>cl_id = Str ''2'', cl_status = None\<rparr>,
      \<lparr>cl_id = Str ''3'', cl_status = Some ''high''\<rparr>,
      \<lparr>cl_id = Str ''4'', cl_status = Some ''urgent''\<rparr>,
      \<lparr>cl_id = Str ''5'', cl_status = Some ''high''\<rparr>,
      \<lparr>cl_id = Str ''6'', cl_status = Some ''medium''\<rparr>]"

definition deals_example :: "deal list" where
  "deals_example =
     [\<lparr>d_client_id = Str ''5'', d_clients_id = Undefined\<rparr>,
      \<lparr>d_client_id = Str ''4'', d_clients_id = Undefined\<rparr>,
      \<lparr>d_client_id = Str ''5'', d_clients_id = Undefined\<rparr>,
      \<lparr>d_client_id = Null, d_clients_id = Undefined\<rparr>]"

text \<open>A client whose priority is looked up as a number: the rank the specification gives.\<close>

definition plain :: "priority_client \<Rightarrow> bool" where
  "plain pc = (priorityOf (pc_priority pc) = Number (spec_rank (cl_status pc)))"

section \<open>The pipeline, call by call\<close>

text \<open>
  The calls of a run and its outcome, written from the answers of the remote calls alone,
  for comparison with the executor. The type of an automation is \<open>action_type_type\<close> when
  that is a non-empty string and \<open>action_type\<close> otherwise.
\<close>

definition spec_type :: "automation \<Rightarrow> nstr" where
  "spec_type a = (if truthyN (a_action_type_type a) then a_action_type_type a else a_action_type a)"

text \<open>
  The email and the meeting handler of the sending executor. The recipient is the address
  given by the caller; without one it is the \<open>email\<close> of the client \<open>config.client_id\<close>,
  fetched from \<open>clients\<close>: there is none when that query answers with an error or without a
  row, or when the address is empty. With a recipient the session is read and, when there
  is one, \<open>send-email\<close> is invoked; the mail is sent when that answers without an error and
  with \<open>success\<close> true.
\<close>

definition spec_recipient_calls :: "string option \<Rightarrow> string option \<Rightarrow> event list" where
  "spec_recipient_calls clientEmail clientId =
     (if \<not> truthy clientEmail \<and> truthy clientId
      then [SelectSingle Clients ''email, client_id'' [(''client_id'', the clientId)]]
      else [])"

definition spec_recipient :: "env \<Rightarrow> string option \<Rightarrow> string option \<Rightarrow> string option" where
  "spec_recipient env clientEmail clientId =
     (if truthy clientEmail then clientEmail
      else if truthy clientId
      then (case select_client env ''client_id'' (the clientId) of
              (Some client, None) \<Rightarrow> (if truthy (c_email client) then c_email client else None)
            | (_, _) \<Rightarrow> None)
      else None)"

definition spec_send_calls :: "env \<Rightarrow> string option \<Rightarrow> (string \<Rightarrow> email_body) \<Rightarrow> event list" where
  "spec_send_calls env recipient body =
     (case recipient of
        None \<Rightarrow> []
      | Some r \<Rightarrow> GetSession # (if session env then [Invoke ''send-email'' (body r)] else []))"

definition spec_sent :: "env \<Rightarrow> string option \<Rightarrow> (string \<Rightarrow> email_body) \<Rightarrow> bool" where
  "spec_sent env recipient body =
     (case recipient of
        None \<Rightarrow> False
      | Some r \<Rightarrow>
          session env \<and>
          (case invoke_send_email env (body r) of
             (Some d, None) \<Rightarrow> sr_success d
           | (_, _) \<Rightarrow> False))"

definition spec_email_body :: "automation \<Rightarrow> string \<Rightarrow> email_body" where
  "spec_email_body a r =
     \<lparr>to = r,
      subject = orDefault (orElse (cfg_email_subject (configOf a)) (a_name a))
                  ''Email from ClientFlowAI'',
      html = replaceNewlines (the (cfg_email_message (configOf a))),
      text_part = the (cfg_email_message (configOf a))\<rparr>"

definition spec_meeting_body :: "automation \<Rightarrow> string \<Rightarrow> email_body" where
  "spec_meeting_body a r =
     \<lparr>to = r,
      subject = ''Follow-up: '' @ the (cfg_meeting_name (configOf a)),
      html = meetingHtml (the (cfg_meeting_name (configOf a))) (the (cfg_email_content (configOf a))),
      text_part = the (cfg_email_content (configOf a))\<rparr>"

definition spec_email_calls :: "env \<Rightarrow> automation \<Rightarrow> string option \<Rightarrow> event list" where
  "spec_email_calls env a clientEmail =
     (if truthy (cfg_email_message (configOf a))
      then spec_recipient_calls clientEmail (cfg_client_id (configOf a))
           @ spec_send_calls env (spec_recipient env clientEmail (cfg_client_id (configOf a)))
               (spec_email_body a)
      else [])"

definition spec_email_succeeds :: "env \<Rightarrow> automation \<Rightarrow> string option \<Rightarrow> bool" where
  "spec_email_succeeds env a clientEmail =
     (truthy (cfg_email_message (configOf a))
      \<and> spec_sent env (spec_recipient env clientEmail (cfg_client_id (configOf a)))
            (spec_email_body a))"

definition spec_meeting_calls :: "env \<Rightarrow> automation \<Rightarrow> string option \<Rightarrow> event list" where
  "spec_meeting_calls env a clientEmail =
     (if truthy (cfg_meeting_name (configOf a)) \<and> truthy (cfg_email_content (configOf a))
      then spec_recipient_calls clientEmail (cfg_client_id (configOf a))
           @ spec_send_calls env (spec_recipient env clientEmail (cfg_client_id (configOf a)))
               (spec_meeting_body a)
      else [])"

definition spec_meeting_succeeds :: "env \<Rightarrow> automation \<Rightarrow> string option \<Rightarrow> bool" where
  "spec_meeting_succeeds env a clientEmail =
     (truthy (cfg_meeting_name (configOf a)) \<and> truthy (cfg_email_content (configOf a))
      \<and> spec_sent env (spec_recipient env clientEmail (cfg_client_id (configOf a)))
            (spec_meeting_body a))"

text \<open>
  The summary handler, the same in both executors. The client is looked up by \<open>client_id\<close>
  and, when that answers with the error code \<open>PGRST116\<close>, by \<open>id\<close>; it is found when the
  first query answers without an error and with a row, or the second one does. For a client
  that is found the deals, the interactions and the prioritization are queried, and the HTTP
  API is called when the API key is configured (not missing, and not blank). The summary
  succeeds when the call resolves to a response that is ok and whose body can be read.
\<close>

definition spec_client_calls :: "env \<Rightarrow> string \<Rightarrow> event list" where
  "spec_client_calls env clientId =
     SelectSingle Clients ''*'' [(''client_id'', clientId)] #
       (case snd (select_client env ''client_id'' clientId) of
          None \<Rightarrow> []
        | Some e \<Rightarrow>
            if err_code e = Some ''PGRST116''
            then [SelectSingle Clients ''*'' [(''id'', clientId)]]
            else [])"

definition spec_client :: "env \<Rightarrow> string \<Rightarrow> client_row option" where
  "spec_client env clientId =
     (case select_client env ''client_id'' clientId of
        (client, None) \<Rightarrow> client
      | (client, Some e) \<Rightarrow>
          if err_code e = Some ''PGRST116''
          then (case select_client env ''id'' clientId of
                  (Some c, None) \<Rightarrow> Some c
                | (_, _) \<Rightarrow> None)
          else None)"

definition spec_key_configured :: "env \<Rightarrow> bool" where
  "spec_key_configured env = (truthy (api_key_var env) \<and> trim (the (api_key_var env)) \<noteq> [])"

definition spec_summary_calls :: "env \<Rightarrow> automation \<Rightarrow> event list" where
  "spec_summary_calls env a =
     (if truthy (cfg_client_id (configOf a))
      then spec_client_calls env (the (cfg_client_id (configOf a)))
           @ (case spec_client env (the (cfg_client_id (configOf a))) of
                None \<Rightarrow> []
              | Some client \<Rightarrow>
                  (let actualClientId =
                         (if truthy (c_client_id client) then the (c_client_id client)
                          else if truthy (c_id client) then the (c_id client)
                          else the (cfg_client_id (configOf a)))
                   in [SelectMany Deals ''*'' [(''client_id'', actualClientId)],
                       SelectMany Interactions ''*'' [(''client_id'', actualClientId)],
                       SelectSingle ClientPrioritizations ''*'' [(''client_id'', actualClientId)]]
                      @ (if spec_key_configured env then [Fetch completionsUrl] else [])))
      else [])"

definition spec_summary_succeeds :: "env \<Rightarrow> automation \<Rightarrow> bool" where
  "spec_summary_succeeds env a =
     (truthy (cfg_client_id (configOf a))
      \<and> spec_client env (the (cfg_client_id (configOf a))) \<noteq> None
      \<and> spec_key_configured env
      \<and> (case fetch_summary env of Ok (Inr content) \<Rightarrow> True | _ \<Rightarrow> False))"

text \<open>
  The calls of the handler of an automation and whether it succeeds, by type: in the
  sending executor, and in the simulating one, whose email and meeting handlers call
  nothing and succeed when the configuration has the fields they require. An automation
  of any other type has no handler: nothing is called and the run does not succeed.
\<close>

definition spec_handler_calls :: "env \<Rightarrow> automation \<Rightarrow> string option \<Rightarrow> event list" where
  "spec_handler_calls env a clientEmail =
     (if spec_type a = Str ''email'' then spec_email_calls env a clientEmail
      else if spec_type a = Str ''meeting'' then spec_meeting_calls env a clientEmail
      else if spec_type a = Str ''ai-summary'' then spec_summary_calls env a
      else [])"

definition spec_succeeds :: "env \<Rightarrow> automation \<Rightarrow> string option \<Rightarrow> bool" where
  "spec_succeeds env a clientEmail =
     (if spec_type a = Str ''email'' then spec_email_succeeds env a clientEmail
      else if spec_type a = Str ''meeting'' then spec_meeting_succeeds env a clientEmail
      else if spec_type a = Str ''ai-summary'' then spec_summary_succeeds env a
      else False)"

definition spec_simulated_calls :: "env \<Rightarrow> automation \<Rightarrow> event list" where
  "spec_simulated_calls env a =
     (if spec_type a = Str ''ai-summary'' then spec_summary_calls env a else [])"

definition spec_simulated_succeeds :: "env \<Rightarrow> automation \<Rightarrow> bool" where
  "spec_simulated_succeeds env a =
     (if spec_type a = Str ''email'' then truthy (cfg_email_message (configOf a))
      else if spec_type a = Str ''meeting''
      then truthy (cfg_meeting_name (configOf a)) \<and> truthy (cfg_email_content (configOf a))
      else if spec_type a = Str ''ai-summary'' then spec_summary_succeeds env a
      else False)"

text \<open>The update that closes the run, made when the insert returned a row: it is
  addressed to that row by its \<open>id\<close>.\<close>

definition spec_update_calls ::
  "env \<Rightarrow> automation \<Rightarrow> run_row option \<Rightarrow> AutomationExecutionResult \<Rightarrow> event list" where
  "spec_update_calls env a run result =
     (case run of
        None \<Rightarrow> []
      | Some r \<Rightarrow> [UpdateRow AutomationRuns (updateData env a result) [(''id'', run_id r)]])"

section \<open>Properties of the strings and of the analysis\<close>

lemma isWhiteSpace_lowerChar: "isWhiteSpace (lowerChar c) = isWhiteSpace c"
  by (auto simp add: isWhiteSpace_def lowerChar_def Let_def)

lemma dropWhile_lowerChar:
  "dropWhile isWhiteSpace (map lowerChar s) = map lowerChar (dropWhile isWhiteSpace s)"
  by (induction s) (simp_all add: isWhiteSpace_lowerChar)

lemma trim_toLowerCase: "trim (toLowerCase s) = toLowerCase (trim s)"
  by (simp add: trim_def toLowerCase_def dropWhile_lowerChar rev_map)

lemma normalizePriority_range: "normalizePriority p \<in> {''low'', ''medium'', ''high''}"
  by (simp add: normalizePriority_def Let_def)

lemma normalizeSentiment_range: "normalizeSentiment s \<in> {''low'', ''mid'', ''high''}"
  by (simp add: normalizeSentiment_def Let_def)

lemma callToLowerCase_Inr: "callToLowerCase n v f = Inr x \<Longrightarrow> \<exists>s. v = JStr s \<and> x = f s"
  by (cases v) simp_all

lemma parseAnalysis_range:
  assumes "parseAnalysis parse content = Inr r"
  shows "priority r \<in> {''low'', ''medium'', ''high''} \<and> sentiment r \<in> {''low'', ''mid'', ''high''}"
proof -
  from assms obtain p s where
    "priority r = normalizePriority p" and "sentiment r = normalizeSentiment s"
    unfolding parseAnalysis_def
    by (auto split: sum.splits prod.splits dest!: callToLowerCase_Inr)
  then show ?thesis
    using normalizePriority_range [of p] normalizeSentiment_range [of s] by simp
qed

lemma analyzeTry_range:
  assumes "analyzeTry venv fallback = Inr r"
  shows "priority r \<in> {''low'', ''medium'', ''high''} \<and> sentiment r \<in> {''low'', ''mid'', ''high''}"
proof -
  from assms obtain c where "parseAnalysis (JSON_parse venv) c = Inr r"
    unfolding analyzeTry_def
    by (auto split: sum.splits fetch_outcome.splits if_splits)
  then show ?thesis by (rule parseAnalysis_range)
qed

lemma analyzeImage_range:
  assumes "analyzeImageWithOpenAI venv k = Inr r"
  shows "priority r \<in> {''low'', ''medium'', ''high''} \<and> sentiment r \<in> {''low'', ''mid'', ''high''}"
proof -
  from assms have "analyzeTry venv ''Failed to analyze image'' = Inr r"
    unfolding analyzeImageWithOpenAI_def by (auto split: sum.splits option.splits)
  then show ?thesis by (rule analyzeTry_range)
qed

lemma analyzePDF_range:
  assumes "analyzePDFWithOpenAI venv k = Inr r"
  shows "priority r \<in> {''low'', ''medium'', ''high''} \<and> sentiment r \<in> {''low'', ''mid'', ''high''}"
proof -
  from assms have "analyzeTry venv ''Failed to analyze PDF'' = Inr r"
    unfolding analyzePDFWithOpenAI_def by (auto split: sum.splits option.splits)
  then show ?thesis by (rule analyzeTry_range)
qed

lemma parseAnalysis_of_strings:
  assumes "parse content = Inr (JObj fs)"
      and "map_of fs ''priority'' = Some (JStr p)"
      and "map_of fs ''sentiment'' = Some (JStr s)"
  shows "\<exists>r. parseAnalysis parse content = Inr r
             \<and> priority r = normalizePriority p \<and> sentiment r = normalizeSentiment s"
  using assms by (simp add: parseAnalysis_def)

lemma analyze_of_strings:
  assumes "truthy apiKey \<or> (\<exists>k. getOpenAIApiKey (VITE_OPENAI_API_KEY venv) = Inr k)"
      and "fileToBase64 venv \<noteq> None"
      and "fetch_completion venv = Ok (Inr (Some content))" and "content \<noteq> []"
      and "JSON_parse venv content = Inr (JObj fs)"
      and "map_of fs ''priority'' = Some (JStr p)"
      and "map_of fs ''sentiment'' = Some (JStr s)"
  shows "\<exists>r. analyzeImageWithOpenAI venv apiKey = Inr r
             \<and> priority r = normalizePriority p \<and> sentiment r = normalizeSentiment s"
    and "\<exists>r. analyzePDFWithOpenAI venv apiKey = Inr r
             \<and> priority r = normalizePriority p \<and> sentiment r = normalizeSentiment s"
  using assms parseAnalysis_of_strings [of "JSON_parse venv" content fs p s]
  by (auto simp: analyzeImageWithOpenAI_def analyzePDFWithOpenAI_def analyzeTry_def)

lemma vision_example_evaluated:
  "analyzeImageWithOpenAI vision_env_example None =
     Inr \<lparr>priority = ''high'', keywordsCount = JNum 7, sentiment = ''mid'', reasoning = JStr ''''\<rparr>"
  "analyzePDFWithOpenAI vision_env_example None =
     Inr \<lparr>priority = ''high'', keywordsCount = JNum 7, sentiment = ''mid'', reasoning = JStr ''''\<rparr>"
  "toLowerCase (trim '' HIGH'') = ''high''"
  "toLowerCase (trim ''Medium '') = ''medium''"
  "getOpenAIApiKey (VITE_OPENAI_API_KEY vision_env_example) = Inr ''sk-test''"
  by code_simp+

text \<open>
  C8. Whatever content the model returns, an analysis result of \<open>analyzeImageWithOpenAI\<close>
  or \<open>analyzePDFWithOpenAI\<close> has its priority among low, medium, high and its sentiment
  among low, mid, high; and there is such a result, with the normalized values of the two
  fields, whenever the key and the file are read, the response is \<open>ok\<close> and its content
  parses to an object whose priority and sentiment are strings (on any other content the
  call throws). The strings are matched without regard to case after trimming: trimming
  first and lower-casing then gives what the code computes. A priority that is then none
  of the three words becomes medium; the sentiment medium becomes mid, and a sentiment
  that is none of the four words becomes mid.
\<close>

theorem analysis_priority_and_sentiment_normalized:
  "(\<forall>r. analyzeImageWithOpenAI venv apiKey = Inr r \<longrightarrow>
        priority r \<in> {''low'', ''medium'', ''high''} \<and> sentiment r \<in> {''low'', ''mid'', ''high''})
   \<and> (\<forall>r. analyzePDFWithOpenAI venv apiKey = Inr r \<longrightarrow>
        priority r \<in> {''low'', ''medium'', ''high''} \<and> sentiment r \<in> {''low'', ''mid'', ''high''})
   \<and> ((truthy apiKey \<or> (\<exists>k. getOpenAIApiKey (VITE_OPENAI_API_KEY venv) = Inr k))
        \<and> fileToBase64 venv \<noteq> None
        \<and> fetch_completion venv = Ok (Inr (Some content)) \<and> content \<noteq> []
        \<and> JSON_parse venv content = Inr (JObj fs)
        \<and> map_of fs ''priority'' = Some (JStr p)
        \<and> map_of fs ''sentiment'' = Some (JStr s)
        \<longrightarrow> (\<exists>r. analyzeImageWithOpenAI venv apiKey = Inr r
                  \<and> priority r = normalizePriority p \<and> sentiment r = normalizeSentiment s)
            \<and> (\<exists>r. analyzePDFWithOpenAI venv apiKey = Inr r
                  \<and> priority r = normalizePriority p \<and> sentiment r = normalizeSentiment s))
   \<and> normalizePriority p \<in> {''low'', ''medium'', ''high''}
   \<and> normalizeSentiment s \<in> {''low'', ''mid'', ''high''}
   \<and> normalizePriority p =
        (if toLowerCase (trim p) \<in> {''low'', ''medium'', ''high''} then toLowerCase (trim p)
         else ''medium'')
   \<and> normalizeSentiment s =
        (if toLowerCase (trim s) = ''medium'' then ''mid''
         else if toLowerCase (trim s) \<in> {''low'', ''mid'', ''high''} then toLowerCase (trim s)
         else ''mid'')"
proof -
  have a: "\<forall>r. analyzeImageWithOpenAI venv apiKey = Inr r \<longrightarrow>
        priority r \<in> {''low'', ''medium'', ''high''} \<and> sentiment r \<in> {''low'', ''mid'', ''high''}"
    using analyzeImage_range [of venv apiKey] by blast
  have b: "\<forall>r. analyzePDFWithOpenAI venv apiKey = Inr r \<longrightarrow>
        priority r \<in> {''low'', ''medium'', ''high''} \<and> sentiment r \<in> {''low'', ''mid'', ''high''}"
    using analyzePDF_range [of venv apiKey] by blast
  have c: "(truthy apiKey \<or> (\<exists>k. getOpenAIApiKey (VITE_OPENAI_API_KEY venv) = Inr k))
        \<and> fileToBase64 venv \<noteq> None
        \<and> fetch_completion venv = Ok (Inr (Some content)) \<and> content \<noteq> []
        \<and> JSON_parse venv content = Inr (JObj fs)
        \<and> map_of fs ''priority'' = Some (JStr p)
        \<and> map_of fs ''sentiment'' = Some (JStr s)
        \<longrightarrow> (\<exists>r. analyzeImageWithOpenAI venv apiKey = Inr r
                  \<and> priority r = normalizePriority p \<and> sentiment r = normalizeSentiment s)
            \<and> (\<exists>r. analyzePDFWithOpenAI venv apiKey = Inr r
                  \<and> priority r = normalizePriority p \<and> sentiment r = normalizeSentiment s)"
    using analyze_of_strings [of apiKey venv content fs p s] by blast
  have d: "normalizePriority p =
        (if toLowerCase (trim p) \<in> {''low'', ''medium'', ''high''} then toLowerCase (trim p)
         else ''medium'')"
    by (simp add: normalizePriority_def Let_def trim_toLowerCase)
  have e: "normalizeSentiment s =
        (if toLowerCase (trim s) = ''medium'' then ''mid''
         else if toLowerCase (trim s) \<in> {''low'', ''mid'', ''high''} then toLowerCase (trim s)
         else ''mid'')"
    by (simp add: normalizeSentiment_def Let_def trim_toLowerCase)
  show ?thesis
    by (intro conjI a b c d e normalizePriority_range normalizeSentiment_range)
qed

theorem analysis_priority_and_sentiment_normalized_witness:
  "getOpenAIApiKey (VITE_OPENAI_API_KEY vision_env_example) = Inr ''sk-test''
   \<and> fileToBase64 vision_env_example \<noteq> None
   \<and> fetch_completion vision_env_example = Ok (Inr (Some ''{}''))
   \<and> JSON_parse vision_env_example ''{}'' =
        Inr (JObj [(''priority'', JStr '' HIGH''), (''sentiment'', JStr ''Medium ''),
                   (''keywordsCount'', JNum 7)])
   \<and> analyzeImageWithOpenAI vision_env_example None =
     Inr \<lparr>priority = ''high'', keywordsCount = JNum 7, sentiment = ''mid'', reasoning = JStr ''''\<rparr>
   \<and> analyzePDFWithOpenAI vision_env_example None =
     Inr \<lparr>priority = ''high'', keywordsCount = JNum 7, sentiment = ''mid'', reasoning = JStr ''''\<rparr>
   \<and> (\<exists>r. analyzeImageWithOpenAI vision_env_example None = Inr r
          \<and> priority r = normalizePriority '' HIGH'' \<and> sentiment r = normalizeSentiment ''Medium '')
   \<and> toLowerCase (trim '' HIGH'') \<in> {''low'', ''medium'', ''high''}
   \<and> normalizePriority '' HIGH'' = ''high''
   \<and> toLowerCase (trim ''Medium '') = ''medium''
   \<and> normalizeSentiment ''Medium '' = ''mid''"
proof -
  have 1: "fileToBase64 vision_env_example \<noteq> None"
    "fetch_completion vision_env_example = Ok (Inr (Some ''{}''))"
    "JSON_parse vision_env_example ''{}'' =
        Inr (JObj [(''priority'', JStr '' HIGH''), (''sentiment'', JStr ''Medium ''),
                   (''keywordsCount'', JNum 7)])"
    by (simp_all add: vision_env_example_def)
  note t = analysis_priority_and_sentiment_normalized
            [of vision_env_example None "''{}''"
                "[(''priority'', JStr '' HIGH''), (''sentiment'', JStr ''Medium ''),
                  (''keywordsCount'', JNum 7)]" "'' HIGH''" "''Medium ''"]
  have 2: "\<exists>r. analyzeImageWithOpenAI vision_env_example None = Inr r
          \<and> priority r = normalizePriority '' HIGH'' \<and> sentiment r = normalizeSentiment ''Medium ''"
    using t [THEN conjunct2, THEN conjunct2, THEN conjunct1] 1 vision_example_evaluated(5)
    by simp
  have 3: "normalizePriority '' HIGH'' = ''high''"
    using t [THEN conjunct2, THEN conjunct2, THEN conjunct2, THEN conjunct2, THEN conjunct2,
             THEN conjunct1]
    by (simp add: vision_example_evaluated(3))
  have 4: "normalizeSentiment ''Medium '' = ''mid''"
    using t [THEN conjunct2, THEN conjunct2, THEN conjunct2, THEN conjunct2, THEN conjunct2,
             THEN conjunct2]
    by (simp add: vision_example_evaluated(4))
  show ?thesis
    by (intro conjI vision_example_evaluated(5) 1 vision_example_evaluated(1,2) 2 3 4)
       (simp_all add: vision_example_evaluated(3,4))
qed

section \<open>Properties of the computations\<close>

lemma fst_tryCatch_returns:
  "fst (tryCatch m (\<lambda>e. returns (f e))) = Inr (case fst m of Inl e \<Rightarrow> f e | Inr x \<Rightarrow> x)"
  by (cases m) (auto simp: tryCatch_def returns_def split: sum.splits)

lemma snd_tryCatch_returns: "snd (tryCatch m (\<lambda>e. returns (f e))) = snd m"
  by (cases m) (auto simp: tryCatch_def returns_def split: sum.splits)

lemma snd_andThen:
  "snd (andThen m f) = snd m @ (case fst m of Inl e \<Rightarrow> [] | Inr x \<Rightarrow> snd (f x))"
  by (cases m) (auto simp: andThen_def split: sum.splits prod.splits)

lemma fst_andThen:
  "fst (andThen m f) = (case fst m of Inl e \<Rightarrow> Inl e | Inr x \<Rightarrow> fst (f x))"
  by (cases m) (auto simp: andThen_def split: sum.splits prod.splits)

lemma comp_simps [simp]:
  "fst (returns x) = Inr x" "snd (returns x) = []"
  "fst (throws e) = Inl e" "snd (throws e) = []"
  "fst (remote ev r) = Inr r" "snd (remote ev r) = [ev]"
  by (simp_all add: returns_def throws_def remote_def)

section \<open>Properties of the executor\<close>

lemma executeAutomationWith_disabled:
  "\<not> isTrue (a_is_enabled automation) \<Longrightarrow> \<not> isTrue (a_is_active automation) \<Longrightarrow>
   executeAutomationWith hs env automation clientEmail =
     (Inr \<lparr>success = False, message = ''Automation is disabled'', data = JUndefined\<rparr>, [])"
  by (simp add: executeAutomationWith_def returns_def)

text \<open>
  C9. When \<open>is_enabled\<close> and \<open>is_active\<close> of an automation are both falsy,
  \<open>executeAutomation\<close> (in either copy of the executor) returns the result with success
  false and the message "Automation is disabled", and its trace is empty: no row is
  inserted, no handler runs, nothing is sent and no HTTP call is made.
\<close>

theorem disabled_automation_performs_nothing:
  assumes "\<not> isTrue (a_is_enabled automation)" and "\<not> isTrue (a_is_active automation)"
  shows "executeAutomation env automation clientEmail =
           (Inr \<lparr>success = False, message = ''Automation is disabled'', data = JUndefined\<rparr>, [])
       \<and> executeAutomation_simulated env automation clientEmail =
           (Inr \<lparr>success = False, message = ''Automation is disabled'', data = JUndefined\<rparr>, [])"
  using assms
  by (simp add: executeAutomation_def executeAutomation_simulated_def executeAutomationWith_disabled)

theorem disabled_automation_performs_nothing_witness:
  "\<not> isTrue (a_is_enabled automation_disabled) \<and> \<not> isTrue (a_is_active automation_disabled)
   \<and> executeAutomation env_ok automation_disabled None =
        (Inr \<lparr>success = False, message = ''Automation is disabled'', data = JUndefined\<rparr>, [])
   \<and> executeAutomation_simulated env_ok automation_disabled None =
        (Inr \<lparr>success = False, message = ''Automation is disabled'', data = JUndefined\<rparr>, [])"
proof -
  have d: "\<not> isTrue (a_is_enabled automation_disabled)"
          "\<not> isTrue (a_is_active automation_disabled)"
    by (simp_all add: automation_disabled_def isTrue_def)
  show ?thesis
    using d disabled_automation_performs_nothing [OF d, of env_ok None] by simp
qed

lemma recipientOf_trace:
  "snd (recipientOf env ce cid) = []
   \<or> (\<exists>v. snd (recipientOf env ce cid) = [SelectSingle Clients ''email, client_id'' [(''client_id'', v)]])"
  by (simp add: recipientOf_def snd_andThen split: prod.splits)

lemma email_try_snd:
  "snd (executeEmailAutomation_try env a ce) =
     (if orDefault (cfg_email_message (configOf a)) '''' = [] then []
      else snd (recipientOf env ce (cfg_client_id (configOf a))) @
        (case fst (recipientOf env ce (cfg_client_id (configOf a))) of
           Inl e \<Rightarrow> []
         | Inr r \<Rightarrow>
             if \<not> truthy r then []
             else GetSession #
               (if \<not> session env then []
                else [Invoke ''send-email''
                        \<lparr>to = the r,
                         subject = orDefault (orElse (cfg_email_subject (configOf a)) (a_name a))
                                     ''Email from ClientFlowAI'',
                         html = replaceNewlines (orDefault (cfg_email_message (configOf a)) ''''),
                         text_part = orDefault (cfg_email_message (configOf a)) ''''\<rparr>])))"
  by (simp add: executeEmailAutomation_try_def Let_def snd_andThen split: sum.splits prod.splits)

lemma meeting_try_snd:
  "snd (executeMeetingFollowUpAutomation_try env a ce) =
     (if orDefault (cfg_meeting_name (configOf a)) '''' = []
         \<or> orDefault (cfg_email_content (configOf a)) '''' = [] then []
      else snd (recipientOf env ce (cfg_client_id (configOf a))) @
        (case fst (recipientOf env ce (cfg_client_id (configOf a))) of
           Inl e \<Rightarrow> []
         | Inr r \<Rightarrow>
             if \<not> truthy r then []
             else GetSession #
               (if \<not> session env then []
                else [Invoke ''send-email''
                        \<lparr>to = the r,
                         subject = ''Follow-up: '' @ orDefault (cfg_meeting_name (configOf a)) '''',
                         html = meetingHtml (orDefault (cfg_meeting_name (configOf a)) '''')
                                  (orDefault (cfg_email_content (configOf a)) ''''),
                         text_part = orDefault (cfg_email_content (configOf a)) ''''\<rparr>])))"
  by (simp add: executeMeetingFollowUpAutomation_try_def Let_def snd_andThen
           split: sum.splits prod.splits)

lemma lookupClient_trace:
  "snd (lookupClient env cid) = [SelectSingle Clients ''*'' [(''client_id'', cid)]]
   \<or> snd (lookupClient env cid) =
        [SelectSingle Clients ''*'' [(''client_id'', cid)], SelectSingle Clients ''*'' [(''id'', cid)]]"
  by (simp add: lookupClient_def snd_andThen split: prod.splits)

lemma summary_try_snd:
  "snd (executeAIClientSummaryAutomation_try env a) =
     (if \<not> truthy (cfg_client_id (configOf a)) then []
      else snd (lookupClient env (the (cfg_client_id (configOf a)))) @
        (case fst (lookupClient env (the (cfg_client_id (configOf a)))) of
           Inl e \<Rightarrow> []
         | Inr (client, clientError) \<Rightarrow>
             if clientError \<noteq> None \<or> client = None then []
             else (let actualClientId =
                         orDefault (orElse (c_client_id (the client)) (c_id (the client)))
                           (the (cfg_client_id (configOf a)))
                   in [SelectMany Deals ''*'' [(''client_id'', actualClientId)],
                       SelectMany Interactions ''*'' [(''client_id'', actualClientId)],
                       SelectSingle ClientPrioritizations ''*'' [(''client_id'', actualClientId)]]
                      @ (case getOpenAIApiKey (api_key_var env) of
                           Inl e \<Rightarrow> []
                         | Inr k \<Rightarrow> if k = [] then [] else [Fetch completionsUrl]))))"
  by (simp add: executeAIClientSummaryAutomation_try_def Let_def snd_andThen fst_andThen
           split: sum.splits prod.splits fetch_outcome.splits)

lemma email_try_trace: "pipelineTrace (snd (executeEmailAutomation_try env a ce))"
  using recipientOf_trace [of env ce "cfg_client_id (configOf a)"]
  unfolding email_try_snd pipelineTrace_def
  by (auto split: sum.splits)

lemma meeting_try_trace: "pipelineTrace (snd (executeMeetingFollowUpAutomation_try env a ce))"
  using recipientOf_trace [of env ce "cfg_client_id (configOf a)"]
  unfolding meeting_try_snd pipelineTrace_def
  by (auto split: sum.splits)

lemma summary_try_trace: "pipelineTrace (snd (executeAIClientSummaryAutomation_try env a))"
  using lookupClient_trace [of env "the (cfg_client_id (configOf a))"]
  unfolding summary_try_snd pipelineTrace_def
  by (auto simp: Let_def split: sum.splits prod.splits)

lemma email_simulated_snd: "snd (executeEmailAutomation_simulated env a ce) = []"
  by (simp add: executeEmailAutomation_simulated_def executeEmailAutomation_simulated_try_def
        snd_tryCatch_returns Let_def)

lemma meeting_simulated_snd: "snd (executeMeetingFollowUpAutomation_simulated env a ce) = []"
  by (simp add: executeMeetingFollowUpAutomation_simulated_def
        executeMeetingFollowUpAutomation_simulated_try_def snd_tryCatch_returns Let_def)

lemma runHandler_returns:
  assumes "hs \<in> repositoryHandlers"
  shows "\<exists>result. fst (runHandler hs env a ce) = Inr result"
  using assms
  by (auto simp: repositoryHandlers_def runHandler_def sendingHandlers_def simulatingHandlers_def
        executeEmailAutomation_def executeMeetingFollowUpAutomation_def
        executeAIClientSummaryAutomation_def executeEmailAutomation_simulated_def
        executeMeetingFollowUpAutomation_simulated_def fst_tryCatch_returns)

lemma runHandler_trace:
  assumes "hs \<in> repositoryHandlers"
  shows "pipelineTrace (snd (runHandler hs env a ce))"
proof -
  have nil: "pipelineTrace []" by (simp add: pipelineTrace_def)
  show ?thesis
    using assms nil email_try_trace [of env a ce] meeting_try_trace [of env a ce]
      summary_try_trace [of env a]
    by (auto simp: repositoryHandlers_def runHandler_def sendingHandlers_def simulatingHandlers_def
        executeEmailAutomation_def executeMeetingFollowUpAutomation_def
        executeAIClientSummaryAutomation_def snd_tryCatch_returns
        email_simulated_snd meeting_simulated_snd)
qed

lemma snd_updateRun:
  "snd (updateRun run p) =
     (case run of None \<Rightarrow> [] | Some r \<Rightarrow> [UpdateRow AutomationRuns p [(''id'', run_id r)]])"
  by (simp add: updateRun_def split: option.splits)

lemma executeAutomationWith_enabled:
  assumes "isTrue (a_is_enabled a) \<or> isTrue (a_is_active a)"
      and "insert_run env (runInsert env a) = (run, runError)"
      and "runHandler hs env a ce = (outcome, h)"
  shows "executeAutomationWith hs env a ce =
    (if run = None \<and> runError = None
     then (Inl (readOfNull ''id''), [InsertRow AutomationRuns (runInsert env a)])
     else (case outcome of
             Inr result \<Rightarrow>
               (Inr result,
                InsertRow AutomationRuns (runInsert env a) # h
                  @ snd (updateRun run (updateData env a result)))
           | Inl e \<Rightarrow>
               (Inr \<lparr>success = False, message = messageOr e ''Failed to execute automation'',
                     data = JUndefined\<rparr>,
                InsertRow AutomationRuns (runInsert env a) # h
                  @ snd (updateRun run (failedData env e)))))"
  using assms
  by (auto simp: executeAutomationWith_def andThen_def tryCatch_def remote_def returns_def
        throws_def updateRun_def split: option.splits sum.splits prod.splits)

lemma pipelineTrace_no_status:
  assumes "pipelineTrace h"
  shows "statusesWritten h = []"
proof -
  have "statusWritten e = []" if "e \<in> set h" for e
    using assms that by (cases e) (auto simp: pipelineTrace_def)
  then show ?thesis by (simp add: statusesWritten_def)
qed

lemma status_of_runInsert: "map_of (runInsert env a) ''automation_status'' = Some (JStr ''running'')"
  by (simp add: runInsert_def)

lemma status_of_updateData:
  "map_of (updateData env a result) ''automation_status'' =
     Some (JStr (if success result then ''completed'' else ''failed''))"
  by (simp add: updateData_def)

text \<open>
  C1, as the code has it. For an enabled automation, the first remote call of
  \<open>executeAutomation\<close> (in either copy of the executor) is the insert of a row into
  \<open>automation_runs\<close> with \<open>automation_status\<close> "running"; then the handler runs, and none of
  its calls is a write. When the insert answers with a row, exactly one update follows the
  handler's calls: of that row (its \<open>id\<close>), with status "completed" when the handler
  reports success and "failed" otherwise. When the insert answers with an error and no row,
  the handler runs all the same and no update is made. These are the only writes of the
  call, so no other status is written.
\<close>

theorem run_row_inserted_first_and_updated_once:
  assumes "isTrue (a_is_enabled a) \<or> isTrue (a_is_active a)"
      and "hs \<in> repositoryHandlers"
      and "insert_run env (runInsert env a) = (run, runError)"
      and "run \<noteq> None \<or> runError \<noteq> None"
  shows "\<exists>result h.
           runHandler hs env a ce = (Inr result, h)
           \<and> (\<forall>e \<in> set h. \<not> isWrite e)
           \<and> executeAutomationWith hs env a ce =
               (Inr result,
                InsertRow AutomationRuns (runInsert env a) # h @
                  (case run of
                     None \<Rightarrow> []
                   | Some r \<Rightarrow> [UpdateRow AutomationRuns (updateData env a result) [(''id'', run_id r)]]))
           \<and> map_of (runInsert env a) ''automation_status'' = Some (JStr ''running'')
           \<and> map_of (updateData env a result) ''automation_status'' =
               Some (JStr (if success result then ''completed'' else ''failed''))"
proof -
  obtain result where r: "fst (runHandler hs env a ce) = Inr result"
    using runHandler_returns [OF assms(2)] by blast
  define h where "h = snd (runHandler hs env a ce)"
  have rh: "runHandler hs env a ce = (Inr result, h)"
    using r by (simp add: h_def prod_eq_iff)
  have nw: "\<forall>e \<in> set h. \<not> isWrite e"
    using runHandler_trace [OF assms(2), of env a ce] by (simp add: h_def pipelineTrace_def)
  have ex: "executeAutomationWith hs env a ce =
               (Inr result,
                InsertRow AutomationRuns (runInsert env a) # h @
                  (case run of
                     None \<Rightarrow> []
                   | Some r \<Rightarrow> [UpdateRow AutomationRuns (updateData env a result) [(''id'', run_id r)]]))"
    using executeAutomationWith_enabled [OF assms(1) assms(3) rh] assms(4)
    by (auto simp: snd_updateRun)
  show ?thesis
    using rh nw ex status_of_runInsert status_of_updateData by blast
qed

theorem run_row_inserted_first_and_updated_once_witness:
  "(isTrue (a_is_enabled automation_email) \<or> isTrue (a_is_active automation_email))
   \<and> sendingHandlers \<in> repositoryHandlers
   \<and> insert_run env_ok (runInsert env_ok automation_email) = (Some \<lparr>run_id = ''r1''\<rparr>, None)
   \<and> (\<exists>result h.
         runHandler sendingHandlers env_ok automation_email None = (Inr result, h)
         \<and> (\<forall>e \<in> set h. \<not> isWrite e)
         \<and> executeAutomationWith sendingHandlers env_ok automation_email None =
             (Inr result,
              InsertRow AutomationRuns (runInsert env_ok automation_email) # h @
                [UpdateRow AutomationRuns (updateData env_ok automation_email result) [(''id'', ''r1'')]])
         \<and> map_of (runInsert env_ok automation_email) ''automation_status'' = Some (JStr ''running'')
         \<and> map_of (updateData env_ok automation_email result) ''automation_status'' =
             Some (JStr (if success result then ''completed'' else ''failed'')))"
proof -
  have 1: "isTrue (a_is_enabled automation_email) \<or> isTrue (a_is_active automation_email)"
    by (simp add: automation_email_def isTrue_def)
  have 2: "sendingHandlers \<in> repositoryHandlers"
    by (simp add: repositoryHandlers_def)
  have 3: "insert_run env_ok (runInsert env_ok automation_email) = (Some \<lparr>run_id = ''r1''\<rparr>, None)"
    by (simp add: env_ok_def)
  have 4: "Some \<lparr>run_id = ''r1''\<rparr> \<noteq> None \<or> (None :: error_object option) \<noteq> None"
    by simp
  show ?thesis
    using 1 2 3 run_row_inserted_first_and_updated_once [OF 1 2 3 4, of None] by simp
qed

theorem email_sent_without_run_row_counterexample:
  "(isTrue (a_is_enabled automation_email) \<or> isTrue (a_is_active automation_email))
   \<and> executeAutomation env_insert_fails automation_email None =
    (Inr \<lparr>success = True, message = ''Email sent successfully'',
           data = JObj [(''sent'', JBool True), (''to'', JStr ''ada@example.com''),
                        (''subject'', JStr ''Welcome''), (''emailId'', JStr ''m1'')]\<rparr>,
     [InsertRow AutomationRuns
        [(''automation_id'', JStr ''a1''), (''user_id'', JNull),
         (''automation_status'', JStr ''running''),
         (''started_at'', JStr ''2026-01-15T10:00:00.000Z''), (''finished_at'', JNull)],
      SelectSingle Clients ''email, client_id'' [(''client_id'', ''c1'')],
      GetSession,
      Invoke ''send-email''
        \<lparr>to = ''ada@example.com'', subject = ''Welcome'', html = ''Hello'', text_part = ''Hello''\<rparr>])
   \<and> insert_run env_insert_fails (runInsert env_insert_fails automation_email) =
        (None, Some (ErrorObject (Some ''permission denied'') (Some ''42501'')))"
  by code_simp

lemma statusesWritten_append: "statusesWritten (xs @ ys) = statusesWritten xs @ statusesWritten ys"
  by (simp add: statusesWritten_def)

lemma statusesWritten_Nil: "statusesWritten [] = []"
  by (simp add: statusesWritten_def)

lemma statusesWritten_Cons: "statusesWritten (x # xs) = statusWritten x @ statusesWritten xs"
  by (simp add: statusesWritten_def)

lemma pipelineTrace_stages:
  assumes "pipelineTrace h"
      and "u = [] \<or> (\<exists>q f. u = [UpdateRow AutomationRuns q f])"
  shows "sorted_wrt (<) (map stage (InsertRow AutomationRuns p # h @ u))
         \<and> (\<forall>e \<in> set (InsertRow AutomationRuns p # h @ u). 1 \<le> stage e \<and> stage e \<le> 9)
         \<and> length (InsertRow AutomationRuns p # h @ u) \<le> 8"
  using assms
  by (fastforce simp: pipelineTrace_def sorted_wrt_append)

lemma executeAutomationWith_stages:
  assumes "hs \<in> repositoryHandlers"
  shows "sorted_wrt (<) (map stage (snd (executeAutomationWith hs env a ce)))
         \<and> (\<forall>e \<in> set (snd (executeAutomationWith hs env a ce)). 1 \<le> stage e \<and> stage e \<le> 9)
         \<and> length (snd (executeAutomationWith hs env a ce)) \<le> 8"
proof (cases "isTrue (a_is_enabled a) \<or> isTrue (a_is_active a)")
  case False
  then show ?thesis by (simp add: executeAutomationWith_disabled)
next
  case True
  obtain result where r: "fst (runHandler hs env a ce) = Inr result"
    using runHandler_returns [OF assms] by blast
  define h where "h = snd (runHandler hs env a ce)"
  have rh: "runHandler hs env a ce = (Inr result, h)"
    using r by (simp add: h_def prod_eq_iff)
  have pt: "pipelineTrace h"
    using runHandler_trace [OF assms, of env a ce] by (simp add: h_def)
  obtain run runError where ins: "insert_run env (runInsert env a) = (run, runError)"
    by (cases "insert_run env (runInsert env a)")
  have nil: "pipelineTrace []" by (simp add: pipelineTrace_def)
  show ?thesis
  proof (cases "run = None \<and> runError = None")
    case True
    then show ?thesis
      unfolding executeAutomationWith_enabled [OF \<open>isTrue (a_is_enabled a) \<or> isTrue (a_is_active a)\<close> ins rh]
      by simp
  next
    case False
    have u: "snd (updateRun run (updateData env a result)) = []
             \<or> (\<exists>q f. snd (updateRun run (updateData env a result)) = [UpdateRow AutomationRuns q f])"
      by (simp add: snd_updateRun split: option.splits)
    show ?thesis
      unfolding executeAutomationWith_enabled [OF \<open>isTrue (a_is_enabled a) \<or> isTrue (a_is_active a)\<close> ins rh]
      using False pipelineTrace_stages [OF pt u] by simp
  qed
qed

text \<open>
  C4, as the code has it. For an enabled automation whose insert answered with a row or an
  error: when the handler returns a result with success false, \<open>executeAutomation\<close>
  returns that result, and its calls are the insert, the handler's calls once, and, when
  the insert returned a row, one update of that row with status "failed" and the result's
  message as \<open>error_message\<close>; without a row there is no update. When a handler throws
  (none of the repository does), the \<open>catch\<close> block does the same with the message of the
  error, and returns success false with that message or "Failed to execute automation".
  Nothing is retried.
\<close>

theorem failure_recorded_once_and_returned:
  assumes "isTrue (a_is_enabled a) \<or> isTrue (a_is_active a)"
      and "insert_run env (runInsert env a) = (run, runError)"
      and "run \<noteq> None \<or> runError \<noteq> None"
      and "runHandler hs env a ce = (outcome, h)"
  shows "(\<forall>result. outcome = Inr result \<and> \<not> success result \<longrightarrow>
            executeAutomationWith hs env a ce =
              (Inr result,
               InsertRow AutomationRuns (runInsert env a) # h @
                 (case run of
                    None \<Rightarrow> []
                  | Some r \<Rightarrow>
                      [UpdateRow AutomationRuns
                         [(''automation_status'', JStr ''failed''),
                          (''error_message'', JStr (message result)),
                          (''finished_at'', JStr (now env))]
                         [(''id'', run_id r)]])))
       \<and> (\<forall>e. outcome = Inl e \<longrightarrow>
            executeAutomationWith hs env a ce =
              (Inr \<lparr>success = False, message = messageOr e ''Failed to execute automation'',
                    data = JUndefined\<rparr>,
               InsertRow AutomationRuns (runInsert env a) # h @
                 (case run of
                    None \<Rightarrow> []
                  | Some r \<Rightarrow>
                      [UpdateRow AutomationRuns
                         [(''automation_status'', JStr ''failed''),
                          (''error_message'', JStr e),
                          (''finished_at'', JStr (now env))]
                         [(''id'', run_id r)]])))"
  using executeAutomationWith_enabled [OF assms(1) assms(2) assms(4)] assms(3)
  by (auto simp: snd_updateRun updateData_def failedData_def split: option.splits)

theorem failure_recorded_once_and_returned_witness:
  "(isTrue (a_is_enabled automation_email) \<or> isTrue (a_is_active automation_email))
   \<and> insert_run env_no_session (runInsert env_no_session automation_email) =
         (Some \<lparr>run_id = ''r1''\<rparr>, None)
   \<and> runHandler sendingHandlers env_no_session automation_email None =
         (Inr \<lparr>success = False, message = ''User not authenticated'', data = JUndefined\<rparr>,
          [SelectSingle Clients ''email, client_id'' [(''client_id'', ''c1'')], GetSession])
   \<and> executeAutomationWith sendingHandlers env_no_session automation_email None =
         (Inr \<lparr>success = False, message = ''User not authenticated'', data = JUndefined\<rparr>,
          [InsertRow AutomationRuns (runInsert env_no_session automation_email),
           SelectSingle Clients ''email, client_id'' [(''client_id'', ''c1'')],
           GetSession,
           UpdateRow AutomationRuns
             [(''automation_status'', JStr ''failed''),
              (''error_message'', JStr ''User not authenticated''),
              (''finished_at'', JStr ''2026-01-15T10:00:00.000Z'')]
             [(''id'', ''r1'')]])
   \<and> runHandler handlers_email_throws env_no_session automation_email None = (Inl ''boom'', [])
   \<and> executeAutomationWith handlers_email_throws env_no_session automation_email None =
         (Inr \<lparr>success = False, message = ''boom'', data = JUndefined\<rparr>,
          [InsertRow AutomationRuns (runInsert env_no_session automation_email),
           UpdateRow AutomationRuns
             [(''automation_status'', JStr ''failed''),
              (''error_message'', JStr ''boom''),
              (''finished_at'', JStr ''2026-01-15T10:00:00.000Z'')]
             [(''id'', ''r1'')]])"
proof -
  have 1: "isTrue (a_is_enabled automation_email) \<or> isTrue (a_is_active automation_email)"
    by (simp add: automation_email_def isTrue_def)
  have 2: "insert_run env_no_session (runInsert env_no_session automation_email) =
         (Some \<lparr>run_id = ''r1''\<rparr>, None)"
    by (simp add: env_no_session_def env_ok_def)
  have 3: "Some \<lparr>run_id = ''r1''\<rparr> \<noteq> None \<or> (None :: error_object option) \<noteq> None"
    by simp
  have 4: "runHandler sendingHandlers env_no_session automation_email None =
         (Inr \<lparr>success = False, message = ''User not authenticated'', data = JUndefined\<rparr>,
          [SelectSingle Clients ''email, client_id'' [(''client_id'', ''c1'')], GetSession])"
    by code_simp
  have 5: "runHandler handlers_email_throws env_no_session automation_email None = (Inl ''boom'', [])"
    by code_simp
  have 6: "now env_no_session = ''2026-01-15T10:00:00.000Z''"
    by (simp add: env_no_session_def env_ok_def)
  show ?thesis
    using 1 2 4 5
      failure_recorded_once_and_returned [OF 1 2 3 4]
      failure_recorded_once_and_returned [OF 1 2 3 5]
    by (simp add: 6 messageOr_def)
qed

theorem failure_without_run_row_counterexample:
  "(isTrue (a_is_enabled automation_fax) \<or> isTrue (a_is_active automation_fax))
   \<and> executeAutomation env_insert_fails automation_fax None =
        (Inr \<lparr>success = False, message = ''Unknown automation type: fax'', data = JUndefined\<rparr>,
         [InsertRow AutomationRuns
            [(''automation_id'', JStr ''a1''), (''user_id'', JNull),
             (''automation_status'', JStr ''running''),
             (''started_at'', JStr ''2026-01-15T10:00:00.000Z''), (''finished_at'', JNull)]])"
  by code_simp

lemma email_try_success:
  "fst (executeEmailAutomation_try env a ce) = Inr r \<Longrightarrow> success r"
  by (auto simp: executeEmailAutomation_try_def Let_def fst_andThen recipientOf_def
        split: sum.splits prod.splits if_splits)

lemma meeting_try_success:
  "fst (executeMeetingFollowUpAutomation_try env a ce) = Inr r \<Longrightarrow> success r"
  by (auto simp: executeMeetingFollowUpAutomation_try_def Let_def fst_andThen recipientOf_def
        split: sum.splits prod.splits if_splits)

lemma summary_try_success:
  "fst (executeAIClientSummaryAutomation_try env a) = Inr r \<Longrightarrow> success r"
  by (auto simp: executeAIClientSummaryAutomation_try_def Let_def fst_andThen
        split: sum.splits prod.splits if_splits fetch_outcome.splits)

lemma email_simulated_try_success:
  "fst (executeEmailAutomation_simulated_try env a ce) = Inr r \<Longrightarrow> success r"
  by (auto simp: executeEmailAutomation_simulated_try_def Let_def split: if_splits)

lemma meeting_simulated_try_success:
  "fst (executeMeetingFollowUpAutomation_simulated_try env a ce) = Inr r \<Longrightarrow> success r"
  by (auto simp: executeMeetingFollowUpAutomation_simulated_try_def Let_def split: if_splits)

lemma tryCatch_contract:
  assumes "\<And>r. fst body = Inr r \<Longrightarrow> success r"
  shows "(\<exists>r. fst (tryCatch body (\<lambda>error. returns \<lparr>success = False, message = messageOr error fallback, data = JUndefined\<rparr>)) = Inr r)
       \<and> (\<forall>e. fst body = Inl e \<longrightarrow>
              fst (tryCatch body (\<lambda>error. returns \<lparr>success = False, message = messageOr error fallback, data = JUndefined\<rparr>))
                = Inr \<lparr>success = False, message = messageOr e fallback, data = JUndefined\<rparr>)
       \<and> (\<forall>r. fst body = Inr r \<longrightarrow>
              fst (tryCatch body (\<lambda>error. returns \<lparr>success = False, message = messageOr error fallback, data = JUndefined\<rparr>))
                = Inr r \<and> success r)"
  using assms by (simp add: fst_tryCatch_returns split: sum.splits)

text \<open>
  C5. No handler throws to its caller: each returns a result. When the body of its \<open>try\<close>
  block throws an error, the result has success false and as message the error's message,
  or the handler's fixed fallback when that message is empty; when the body returns, the
  handler returns the same result, and its success is true.
\<close>

theorem handlers_never_throw:
  "((\<exists>r. fst (executeEmailAutomation env a ce) = Inr r)
    \<and> (\<forall>e. fst (executeEmailAutomation_try env a ce) = Inl e \<longrightarrow>
          fst (executeEmailAutomation env a ce) =
            Inr \<lparr>success = False, message = messageOr e ''Failed to send email'', data = JUndefined\<rparr>)
    \<and> (\<forall>r. fst (executeEmailAutomation_try env a ce) = Inr r \<longrightarrow>
          fst (executeEmailAutomation env a ce) = Inr r \<and> success r))
   \<and> ((\<exists>r. fst (executeMeetingFollowUpAutomation env a ce) = Inr r)
    \<and> (\<forall>e. fst (executeMeetingFollowUpAutomation_try env a ce) = Inl e \<longrightarrow>
          fst (executeMeetingFollowUpAutomation env a ce) =
            Inr \<lparr>success = False, message = messageOr e ''Failed to send meeting follow-up email'',
                  data = JUndefined\<rparr>)
    \<and> (\<forall>r. fst (executeMeetingFollowUpAutomation_try env a ce) = Inr r \<longrightarrow>
          fst (executeMeetingFollowUpAutomation env a ce) = Inr r \<and> success r))
   \<and> ((\<exists>r. fst (executeAIClientSummaryAutomation env a) = Inr r)
    \<and> (\<forall>e. fst (executeAIClientSummaryAutomation_try env a) = Inl e \<longrightarrow>
          fst (executeAIClientSummaryAutomation env a) =
            Inr \<lparr>success = False, message = messageOr e ''Failed to generate AI summary'',
                  data = JUndefined\<rparr>)
    \<and> (\<forall>r. fst (executeAIClientSummaryAutomation_try env a) = Inr r \<longrightarrow>
          fst (executeAIClientSummaryAutomation env a) = Inr r \<and> success r))
   \<and> ((\<exists>r. fst (executeEmailAutomation_simulated env a ce) = Inr r)
    \<and> (\<forall>e. fst (executeEmailAutomation_simulated_try env a ce) = Inl e \<longrightarrow>
          fst (executeEmailAutomation_simulated env a ce) =
            Inr \<lparr>success = False, message = messageOr e ''Failed to send email'', data = JUndefined\<rparr>)
    \<and> (\<forall>r. fst (executeEmailAutomation_simulated_try env a ce) = Inr r \<longrightarrow>
          fst (executeEmailAutomation_simulated env a ce) = Inr r \<and> success r))
   \<and> ((\<exists>r. fst (executeMeetingFollowUpAutomation_simulated env a ce) = Inr r)
    \<and> (\<forall>e. fst (executeMeetingFollowUpAutomation_simulated_try env a ce) = Inl e \<longrightarrow>
          fst (executeMeetingFollowUpAutomation_simulated env a ce) =
            Inr \<lparr>success = False, message = messageOr e ''Failed to send meeting follow-up email'',
                  data = JUndefined\<rparr>)
    \<and> (\<forall>r. fst (executeMeetingFollowUpAutomation_simulated_try env a ce) = Inr r \<longrightarrow>
          fst (executeMeetingFollowUpAutomation_simulated env a ce) = Inr r \<and> success r))"
proof -
  note email = tryCatch_contract [where body = "executeEmailAutomation_try env a ce"
      and fallback = "''Failed to send email''", OF email_try_success,
      folded executeEmailAutomation_def]
  note meeting = tryCatch_contract [where body = "executeMeetingFollowUpAutomation_try env a ce"
      and fallback = "''Failed to send meeting follow-up email''", OF meeting_try_success,
      folded executeMeetingFollowUpAutomation_def]
  note summary = tryCatch_contract [where body = "executeAIClientSummaryAutomation_try env a"
      and fallback = "''Failed to generate AI summary''", OF summary_try_success,
      folded executeAIClientSummaryAutomation_def]
  note email' = tryCatch_contract [where body = "executeEmailAutomation_simulated_try env a ce"
      and fallback = "''Failed to send email''", OF email_simulated_try_success,
      folded executeEmailAutomation_simulated_def]
  note meeting' = tryCatch_contract
      [where body = "executeMeetingFollowUpAutomation_simulated_try env a ce"
      and fallback = "''Failed to send meeting follow-up email''", OF meeting_simulated_try_success,
      folded executeMeetingFollowUpAutomation_simulated_def]
  show ?thesis
    by (intro conjI email [THEN conjunct1] email [THEN conjunct2, THEN conjunct1]
          email [THEN conjunct2, THEN conjunct2]
          meeting [THEN conjunct1] meeting [THEN conjunct2, THEN conjunct1]
          meeting [THEN conjunct2, THEN conjunct2]
          summary [THEN conjunct1] summary [THEN conjunct2, THEN conjunct1]
          summary [THEN conjunct2, THEN conjunct2]
          email' [THEN conjunct1] email' [THEN conjunct2, THEN conjunct1]
          email' [THEN conjunct2, THEN conjunct2]
          meeting' [THEN conjunct1] meeting' [THEN conjunct2, THEN conjunct1]
          meeting' [THEN conjunct2, THEN conjunct2])
qed

theorem handlers_never_throw_witness:
  "(fst (executeEmailAutomation_try env_ok automation_no_config None) = Inl ''Email message is required''
    \<and> fst (executeEmailAutomation env_ok automation_no_config None) =
          Inr \<lparr>success = False, message = ''Email message is required'', data = JUndefined\<rparr>)
   \<and> (fst (executeMeetingFollowUpAutomation_try env_ok automation_no_config None) =
          Inl ''Meeting name and email content are required''
    \<and> fst (executeMeetingFollowUpAutomation env_ok automation_no_config None) =
          Inr \<lparr>success = False, message = ''Meeting name and email content are required'',
                data = JUndefined\<rparr>)
   \<and> (fst (executeAIClientSummaryAutomation_try env_ok automation_no_config) = Inl ''Client ID is required''
    \<and> fst (executeAIClientSummaryAutomation env_ok automation_no_config) =
          Inr \<lparr>success = False, message = ''Client ID is required'', data = JUndefined\<rparr>)
   \<and> (fst (executeEmailAutomation_simulated_try env_ok automation_no_config None) =
          Inl ''Email message is required''
    \<and> fst (executeEmailAutomation_simulated env_ok automation_no_config None) =
          Inr \<lparr>success = False, message = ''Email message is required'', data = JUndefined\<rparr>)
   \<and> (fst (executeMeetingFollowUpAutomation_simulated_try env_ok automation_no_config None) =
          Inl ''Meeting name and email content are required''
    \<and> fst (executeMeetingFollowUpAutomation_simulated env_ok automation_no_config None) =
          Inr \<lparr>success = False, message = ''Meeting name and email content are required'',
                data = JUndefined\<rparr>)
   \<and> (fst (executeAIClientSummaryAutomation_try env_fetch_rejects automation_email) = Inl []
    \<and> fst (executeAIClientSummaryAutomation env_fetch_rejects automation_email) =
          Inr \<lparr>success = False, message = ''Failed to generate AI summary'', data = JUndefined\<rparr>)
   \<and> (\<exists>r. fst (executeEmailAutomation_try env_ok automation_email None) = Inr r
          \<and> fst (executeEmailAutomation env_ok automation_email None) = Inr r \<and> success r)
   \<and> (\<exists>r. fst (executeAIClientSummaryAutomation_try env_ok automation_email) = Inr r
          \<and> fst (executeAIClientSummaryAutomation env_ok automation_email) = Inr r \<and> success r)
   \<and> (\<exists>r. fst (executeEmailAutomation_simulated_try env_ok automation_email None) = Inr r
          \<and> fst (executeEmailAutomation_simulated env_ok automation_email None) = Inr r \<and> success r)
   \<and> (\<exists>r. fst (executeMeetingFollowUpAutomation_try env_ok automation_meeting None) = Inr r
          \<and> fst (executeMeetingFollowUpAutomation env_ok automation_meeting None) = Inr r \<and> success r)
   \<and> (\<exists>r. fst (executeMeetingFollowUpAutomation_simulated_try env_ok automation_meeting None) = Inr r
          \<and> fst (executeMeetingFollowUpAutomation_simulated env_ok automation_meeting None) = Inr r
          \<and> success r)"
proof -
  have thrown:
    "fst (executeEmailAutomation_try env_ok automation_no_config None) = Inl ''Email message is required''"
    "fst (executeMeetingFollowUpAutomation_try env_ok automation_no_config None) =
       Inl ''Meeting name and email content are required''"
    "fst (executeAIClientSummaryAutomation_try env_ok automation_no_config) = Inl ''Client ID is required''"
    "fst (executeEmailAutomation_simulated_try env_ok automation_no_config None) =
       Inl ''Email message is required''"
    "fst (executeMeetingFollowUpAutomation_simulated_try env_ok automation_no_config None) =
       Inl ''Meeting name and email content are required''"
    "fst (executeAIClientSummaryAutomation_try env_fetch_rejects automation_email) = Inl []"
    by code_simp+
  have returned:
    "\<exists>r. fst (executeEmailAutomation_try env_ok automation_email None) = Inr r"
    "\<exists>r. fst (executeAIClientSummaryAutomation_try env_ok automation_email) = Inr r"
    "\<exists>r. fst (executeEmailAutomation_simulated_try env_ok automation_email None) = Inr r"
    "\<exists>r. fst (executeMeetingFollowUpAutomation_try env_ok automation_meeting None) = Inr r"
    "\<exists>r. fst (executeMeetingFollowUpAutomation_simulated_try env_ok automation_meeting None) = Inr r"
    by (rule exI, code_simp)+
  have failing: "messageOr ''Email message is required'' f = ''Email message is required''"
    "messageOr ''Meeting name and email content are required'' f =
       ''Meeting name and email content are required''"
    "messageOr ''Client ID is required'' f = ''Client ID is required''"
    "messageOr [] f = f" for f
    by (simp_all add: messageOr_def)
  have part1: "(fst (executeEmailAutomation_try env_ok automation_no_config None) = Inl ''Email message is required''
    \<and> fst (executeEmailAutomation env_ok automation_no_config None) =
          Inr \<lparr>success = False, message = ''Email message is required'', data = JUndefined\<rparr>)
   \<and> (fst (executeMeetingFollowUpAutomation_try env_ok automation_no_config None) =
          Inl ''Meeting name and email content are required''
    \<and> fst (executeMeetingFollowUpAutomation env_ok automation_no_config None) =
          Inr \<lparr>success = False, message = ''Meeting name and email content are required'',
                data = JUndefined\<rparr>)
   \<and> (fst (executeAIClientSummaryAutomation_try env_ok automation_no_config) = Inl ''Client ID is required''
    \<and> fst (executeAIClientSummaryAutomation env_ok automation_no_config) =
          Inr \<lparr>success = False, message = ''Client ID is required'', data = JUndefined\<rparr>)
   \<and> (fst (executeEmailAutomation_simulated_try env_ok automation_no_config None) =
          Inl ''Email message is required''
    \<and> fst (executeEmailAutomation_simulated env_ok automation_no_config None) =
          Inr \<lparr>success = False, message = ''Email message is required'', data = JUndefined\<rparr>)
   \<and> (fst (executeMeetingFollowUpAutomation_simulated_try env_ok automation_no_config None) =
          Inl ''Meeting name and email content are required''
    \<and> fst (executeMeetingFollowUpAutomation_simulated env_ok automation_no_config None) =
          Inr \<lparr>success = False, message = ''Meeting name and email content are required'',
                data = JUndefined\<rparr>)
   \<and> (fst (executeAIClientSummaryAutomation_try env_fetch_rejects automation_email) = Inl []
    \<and> fst (executeAIClientSummaryAutomation env_fetch_rejects automation_email) =
          Inr \<lparr>success = False, message = ''Failed to generate AI summary'', data = JUndefined\<rparr>)"
    using thrown
      handlers_never_throw [of env_ok automation_no_config None]
      handlers_never_throw [of env_fetch_rejects automation_email None]
    by (simp add: failing)
  have part2: "(\<exists>r. fst (executeEmailAutomation_try env_ok automation_email None) = Inr r
          \<and> fst (executeEmailAutomation env_ok automation_email None) = Inr r \<and> success r)
   \<and> (\<exists>r. fst (executeAIClientSummaryAutomation_try env_ok automation_email) = Inr r
          \<and> fst (executeAIClientSummaryAutomation env_ok automation_email) = Inr r \<and> success r)
   \<and> (\<exists>r. fst (executeEmailAutomation_simulated_try env_ok automation_email None) = Inr r
          \<and> fst (executeEmailAutomation_simulated env_ok automation_email None) = Inr r \<and> success r)"
    using returned(1,2,3) handlers_never_throw [of env_ok automation_email None]
    by blast
  have part3: "(\<exists>r. fst (executeMeetingFollowUpAutomation_try env_ok automation_meeting None) = Inr r
          \<and> fst (executeMeetingFollowUpAutomation env_ok automation_meeting None) = Inr r \<and> success r)
   \<and> (\<exists>r. fst (executeMeetingFollowUpAutomation_simulated_try env_ok automation_meeting None) = Inr r
          \<and> fst (executeMeetingFollowUpAutomation_simulated env_ok automation_meeting None) = Inr r
          \<and> success r)"
    using returned(4,5) handlers_never_throw [of env_ok automation_meeting None]
    by blast
  show ?thesis
    using part1 part2 part3 by simp
qed

subsection \<open>The calls and the outcome of a run\<close>

lemma recipientOf_calls: "snd (recipientOf env ce cid) = spec_recipient_calls ce cid"
  by (simp add: recipientOf_def spec_recipient_calls_def snd_andThen split: prod.splits)

lemma recipientOf_recipient:
  "(case fst (recipientOf env ce cid) of Inl e \<Rightarrow> None | Inr r \<Rightarrow> if truthy r then r else None)
     = spec_recipient env ce cid"
  by (auto simp: recipientOf_def spec_recipient_def fst_andThen split: prod.splits option.splits)

lemma truthy_orDefault: "(orDefault x '''' = []) = (\<not> truthy x)"
  by (cases x) (auto simp: orDefault_def)

lemma orDefault_the: "truthy x \<Longrightarrow> orDefault x d = the x"
  by (simp add: orDefault_def)

lemma email_try_calls: "snd (executeEmailAutomation_try env a ce) = spec_email_calls env a ce"
  unfolding email_try_snd spec_email_calls_def recipientOf_calls
    recipientOf_recipient [symmetric] spec_send_calls_def spec_email_body_def
  by (auto simp: truthy_orDefault orDefault_the split: sum.splits option.splits)

lemma meeting_try_calls: "snd (executeMeetingFollowUpAutomation_try env a ce) = spec_meeting_calls env a ce"
  unfolding meeting_try_snd spec_meeting_calls_def recipientOf_calls
    recipientOf_recipient [symmetric] spec_send_calls_def spec_meeting_body_def
  by (auto simp: truthy_orDefault orDefault_the split: sum.splits option.splits)

lemma lookupClient_calls: "snd (lookupClient env cid) = spec_client_calls env cid"
  by (auto simp: lookupClient_def spec_client_calls_def snd_andThen split: prod.splits option.splits)

lemma lookupClient_client:
  "(case fst (lookupClient env cid) of Inl e \<Rightarrow> None
    | Inr (client, clientError) \<Rightarrow> if clientError \<noteq> None \<or> client = None then None else client)
     = spec_client env cid"
  by (auto simp: lookupClient_def spec_client_def fst_andThen split: prod.splits option.splits)

lemma summary_try_calls: "snd (executeAIClientSummaryAutomation_try env a) = spec_summary_calls env a"
  unfolding summary_try_snd spec_summary_calls_def lookupClient_calls
    lookupClient_client [symmetric] spec_key_configured_def
  by (auto simp: Let_def getOpenAIApiKey_def orDefault_def orElse_def
        split: sum.splits prod.splits option.splits)

lemma email_try_succeeds:
  "(case fst (executeEmailAutomation_try env a ce) of Inl e \<Rightarrow> False | Inr r \<Rightarrow> True)
     = spec_email_succeeds env a ce"
proof (cases "truthy (cfg_email_message (configOf a))")
  case False
  then show ?thesis
    by (simp add: executeEmailAutomation_try_def Let_def spec_email_succeeds_def truthy_orDefault)
next
  case True
  then have m: "orDefault (cfg_email_message (configOf a)) '''' = the (cfg_email_message (configOf a))"
    and n: "the (cfg_email_message (configOf a)) \<noteq> []"
    by (cases "cfg_email_message (configOf a)"; simp add: orDefault_def)+
  show ?thesis
    unfolding spec_email_succeeds_def spec_sent_def recipientOf_recipient [symmetric]
      spec_email_body_def
    using True
    by (auto simp: executeEmailAutomation_try_def Let_def fst_andThen m n
          split: sum.splits prod.splits option.splits)
qed

lemma meeting_try_succeeds:
  "(case fst (executeMeetingFollowUpAutomation_try env a ce) of Inl e \<Rightarrow> False | Inr r \<Rightarrow> True)
     = spec_meeting_succeeds env a ce"
proof (cases "truthy (cfg_meeting_name (configOf a)) \<and> truthy (cfg_email_content (configOf a))")
  case False
  then show ?thesis
    by (auto simp: executeMeetingFollowUpAutomation_try_def Let_def spec_meeting_succeeds_def
          truthy_orDefault)
next
  case True
  then have m: "orDefault (cfg_meeting_name (configOf a)) '''' = the (cfg_meeting_name (configOf a))"
    and n: "the (cfg_meeting_name (configOf a)) \<noteq> []"
    and m': "orDefault (cfg_email_content (configOf a)) '''' = the (cfg_email_content (configOf a))"
    and n': "the (cfg_email_content (configOf a)) \<noteq> []"
    by (cases "cfg_meeting_name (configOf a)"; cases "cfg_email_content (configOf a)";
        simp add: orDefault_def)+
  show ?thesis
    unfolding spec_meeting_succeeds_def spec_sent_def recipientOf_recipient [symmetric]
      spec_meeting_body_def
    using True
    by (auto simp: executeMeetingFollowUpAutomation_try_def Let_def fst_andThen m n m' n'
          split: sum.splits prod.splits option.splits)
qed

lemma summary_try_succeeds:
  "(case fst (executeAIClientSummaryAutomation_try env a) of Inl e \<Rightarrow> False | Inr r \<Rightarrow> True)
     = spec_summary_succeeds env a"
proof (cases "truthy (cfg_client_id (configOf a))")
  case False
  then show ?thesis
    by (simp add: executeAIClientSummaryAutomation_try_def Let_def spec_summary_succeeds_def)
next
  case True
  show ?thesis
    unfolding spec_summary_succeeds_def lookupClient_client [symmetric] spec_key_configured_def
    using True
    by (simp add: executeAIClientSummaryAutomation_try_def Let_def fst_andThen
          getOpenAIApiKey_def
          split: sum.splits prod.splits option.splits fetch_outcome.splits)
qed

lemma spec_type_actionTypeOf: "spec_type a = actionTypeOf a"
  by (simp add: spec_type_def actionTypeOf_def orElseN_def)

lemma success_of_tryCatch:
  assumes "\<And>r. fst body = Inr r \<Longrightarrow> success r"
  shows "\<exists>result.
           fst (tryCatch body (\<lambda>error. returns \<lparr>success = False,
                                                  message = messageOr error fallback,
                                                  data = JUndefined\<rparr>)) = Inr result
           \<and> success result = (case fst body of Inl e \<Rightarrow> False | Inr r \<Rightarrow> True)"
  using assms by (simp add: fst_tryCatch_returns split: sum.splits)

lemma runHandler_sending_calls:
  "snd (runHandler sendingHandlers env a ce) = spec_handler_calls env a ce"
  by (simp add: runHandler_def sendingHandlers_def spec_handler_calls_def spec_type_actionTypeOf
        executeEmailAutomation_def executeMeetingFollowUpAutomation_def
        executeAIClientSummaryAutomation_def snd_tryCatch_returns
        email_try_calls meeting_try_calls summary_try_calls)

lemma runHandler_simulating_calls:
  "snd (runHandler simulatingHandlers env a ce) = spec_simulated_calls env a"
  by (simp add: runHandler_def simulatingHandlers_def spec_simulated_calls_def
        spec_type_actionTypeOf executeAIClientSummaryAutomation_def snd_tryCatch_returns
        email_simulated_snd meeting_simulated_snd summary_try_calls)

lemma runHandler_sending_succeeds:
  "\<exists>result. fst (runHandler sendingHandlers env a ce) = Inr result
             \<and> success result = spec_succeeds env a ce"
  using success_of_tryCatch [where body = "executeEmailAutomation_try env a ce"
            and fallback = "''Failed to send email''", OF email_try_success]
    success_of_tryCatch [where body = "executeMeetingFollowUpAutomation_try env a ce"
            and fallback = "''Failed to send meeting follow-up email''", OF meeting_try_success]
    success_of_tryCatch [where body = "executeAIClientSummaryAutomation_try env a"
            and fallback = "''Failed to generate AI summary''", OF summary_try_success]
  by (simp add: runHandler_def sendingHandlers_def spec_succeeds_def spec_type_actionTypeOf
        executeEmailAutomation_def executeMeetingFollowUpAutomation_def
        executeAIClientSummaryAutomation_def
        email_try_succeeds meeting_try_succeeds summary_try_succeeds)

lemma email_simulated_try_succeeds:
  "(case fst (executeEmailAutomation_simulated_try env a ce) of Inl e \<Rightarrow> False | Inr r \<Rightarrow> True)
     = truthy (cfg_email_message (configOf a))"
  by (simp add: executeEmailAutomation_simulated_try_def Let_def truthy_orDefault)

lemma meeting_simulated_try_succeeds:
  "(case fst (executeMeetingFollowUpAutomation_simulated_try env a ce) of
      Inl e \<Rightarrow> False | Inr r \<Rightarrow> True)
     = (truthy (cfg_meeting_name (configOf a)) \<and> truthy (cfg_email_content (configOf a)))"
  by (simp add: executeMeetingFollowUpAutomation_simulated_try_def Let_def truthy_orDefault)

lemma runHandler_simulating_succeeds:
  "\<exists>result. fst (runHandler simulatingHandlers env a ce) = Inr result
             \<and> success result = spec_simulated_succeeds env a"
  using success_of_tryCatch [where body = "executeEmailAutomation_simulated_try env a ce"
            and fallback = "''Failed to send email''", OF email_simulated_try_success]
    success_of_tryCatch [where body = "executeMeetingFollowUpAutomation_simulated_try env a ce"
            and fallback = "''Failed to send meeting follow-up email''",
            OF meeting_simulated_try_success]
    success_of_tryCatch [where body = "executeAIClientSummaryAutomation_try env a"
            and fallback = "''Failed to generate AI summary''", OF summary_try_success]
  by (simp add: runHandler_def simulatingHandlers_def spec_simulated_succeeds_def
        spec_type_actionTypeOf
        executeEmailAutomation_simulated_def executeMeetingFollowUpAutomation_simulated_def
        executeAIClientSummaryAutomation_def
        email_simulated_try_succeeds meeting_simulated_try_succeeds summary_try_succeeds)

lemma executeAutomationWith_calls:
  assumes "isTrue (a_is_enabled a) \<or> isTrue (a_is_active a)"
      and "insert_run env (runInsert env a) = (run, runError)"
      and "run \<noteq> None \<or> runError \<noteq> None"
      and "fst (runHandler hs env a ce) = Inr result"
  shows "executeAutomationWith hs env a ce =
           (Inr result,
            InsertRow AutomationRuns (runInsert env a) # snd (runHandler hs env a ce)
              @ spec_update_calls env a run result)"
proof -
  have rh: "runHandler hs env a ce = (Inr result, snd (runHandler hs env a ce))"
    using assms(4) by (simp add: prod_eq_iff)
  show ?thesis
    unfolding executeAutomationWith_enabled [OF assms(1) assms(2) rh]
    using assms(3) by (simp add: snd_updateRun spec_update_calls_def)
qed

lemma executeAutomationWith_statuses:
  assumes "isTrue (a_is_enabled a) \<or> isTrue (a_is_active a)"
      and "hs \<in> repositoryHandlers"
      and "fst (runHandler hs env a ce) = Inr result"
  shows "statusesWritten (snd (executeAutomationWith hs env a ce)) =
               JStr ''running'' #
                 (case fst (insert_run env (runInsert env a)) of
                    None \<Rightarrow> []
                  | Some r \<Rightarrow> [JStr (if success result then ''completed'' else ''failed'')])"
proof -
  define h where "h = snd (runHandler hs env a ce)"
  have rh: "runHandler hs env a ce = (Inr result, h)"
    using assms(3) by (simp add: h_def prod_eq_iff)
  have hs0: "statusesWritten h = []"
    using runHandler_trace [OF assms(2), of env a ce] pipelineTrace_no_status
    by (simp add: h_def)
  obtain run runError where ins: "insert_run env (runInsert env a) = (run, runError)"
    by (cases "insert_run env (runInsert env a)")
  have "statusesWritten (snd (executeAutomationWith hs env a ce)) =
          JStr ''running'' #
            (case run of None \<Rightarrow> []
             | Some r \<Rightarrow> [JStr (if success result then ''completed'' else ''failed'')])"
    unfolding executeAutomationWith_enabled [OF assms(1) ins rh]
    by (simp add: statusesWritten_Nil statusesWritten_Cons statusesWritten_append hs0 snd_updateRun
          status_of_runInsert status_of_updateData split: option.splits)
  then show ?thesis using ins by simp
qed

text \<open>
  C2, as the code has it. For an enabled automation, the statuses that a call writes to
  \<open>automation_runs\<close> are "running" first and then, when the insert returned a row, one of
  "completed" and "failed". It is "completed" exactly when the handler of the automation's
  type succeeds, and the handler's result has success true in exactly that case. In the
  sending executor an email or a meeting succeeds when the configuration has the fields
  the handler requires, there is a recipient and a session, and \<open>send-email\<close> answers
  without an error and with success; in the simulating executor, when the configuration
  has the required fields. A summary succeeds when the configuration names a client, the
  client is found by \<open>client_id\<close> or, after \<open>PGRST116\<close>, by \<open>id\<close>, the API key is configured
  and the HTTP call resolves to an ok response whose body can be read. An automation of
  any other type ends "failed".
\<close>

theorem run_statuses_and_what_decides_them:
  assumes "isTrue (a_is_enabled a) \<or> isTrue (a_is_active a)"
  shows "(\<exists>result. fst (runHandler sendingHandlers env a ce) = Inr result
                     \<and> success result = spec_succeeds env a ce)
         \<and> statusesWritten (snd (executeAutomation env a ce)) =
             JStr ''running'' #
               (case fst (insert_run env (runInsert env a)) of
                  None \<Rightarrow> []
                | Some r \<Rightarrow> [JStr (if spec_succeeds env a ce then ''completed'' else ''failed'')])
         \<and> (\<exists>result. fst (runHandler simulatingHandlers env a ce) = Inr result
                     \<and> success result = spec_simulated_succeeds env a)
         \<and> statusesWritten (snd (executeAutomation_simulated env a ce)) =
             JStr ''running'' #
               (case fst (insert_run env (runInsert env a)) of
                  None \<Rightarrow> []
                | Some r \<Rightarrow>
                    [JStr (if spec_simulated_succeeds env a then ''completed'' else ''failed'')])"
proof -
  obtain r1 where r1: "fst (runHandler sendingHandlers env a ce) = Inr r1"
      and s1: "success r1 = spec_succeeds env a ce"
    using runHandler_sending_succeeds by blast
  obtain r2 where r2: "fst (runHandler simulatingHandlers env a ce) = Inr r2"
      and s2: "success r2 = spec_simulated_succeeds env a"
    using runHandler_simulating_succeeds by blast
  have m1: "sendingHandlers \<in> repositoryHandlers" and m2: "simulatingHandlers \<in> repositoryHandlers"
    by (simp_all add: repositoryHandlers_def)
  have a: "\<exists>result. fst (runHandler sendingHandlers env a ce) = Inr result
                     \<and> success result = spec_succeeds env a ce"
    using r1 s1 by blast
  have b: "statusesWritten (snd (executeAutomation env a ce)) =
             JStr ''running'' #
               (case fst (insert_run env (runInsert env a)) of
                  None \<Rightarrow> []
                | Some r \<Rightarrow> [JStr (if spec_succeeds env a ce then ''completed'' else ''failed'')])"
    using executeAutomationWith_statuses [OF assms m1 r1] s1 by (simp add: executeAutomation_def)
  have c: "\<exists>result. fst (runHandler simulatingHandlers env a ce) = Inr result
                     \<and> success result = spec_simulated_succeeds env a"
    using r2 s2 by blast
  have d: "statusesWritten (snd (executeAutomation_simulated env a ce)) =
             JStr ''running'' #
               (case fst (insert_run env (runInsert env a)) of
                  None \<Rightarrow> []
                | Some r \<Rightarrow>
                    [JStr (if spec_simulated_succeeds env a then ''completed'' else ''failed'')])"
    using executeAutomationWith_statuses [OF assms m2 r2] s2
    by (simp add: executeAutomation_simulated_def)
  show ?thesis by (intro conjI a b c d)
qed

theorem run_statuses_and_what_decides_them_witness:
  "(isTrue (a_is_enabled automation_no_message) \<or> isTrue (a_is_active automation_no_message))
   \<and> \<not> spec_succeeds env_ok automation_no_message None
   \<and> \<not> spec_simulated_succeeds env_ok automation_no_message
   \<and> statusesWritten (snd (executeAutomation env_ok automation_no_message None)) =
        [JStr ''running'', JStr ''failed'']
   \<and> statusesWritten (snd (executeAutomation_simulated env_ok automation_no_message None)) =
        [JStr ''running'', JStr ''failed'']
   \<and> (isTrue (a_is_enabled automation_email) \<or> isTrue (a_is_active automation_email))
   \<and> \<not> spec_succeeds env_no_session automation_email None
   \<and> spec_simulated_succeeds env_no_session automation_email
   \<and> statusesWritten (snd (executeAutomation env_no_session automation_email None)) =
        [JStr ''running'', JStr ''failed'']
   \<and> statusesWritten (snd (executeAutomation_simulated env_no_session automation_email None)) =
        [JStr ''running'', JStr ''completed'']
   \<and> (isTrue (a_is_enabled automation_summary) \<or> isTrue (a_is_active automation_summary))
   \<and> select_client env_found_by_id ''client_id'' ''c1'' =
        (None, Some (ErrorObject (Some ''no rows'') (Some ''PGRST116'')))
   \<and> spec_succeeds env_found_by_id automation_summary None
   \<and> statusesWritten (snd (executeAutomation env_found_by_id automation_summary None)) =
        [JStr ''running'', JStr ''completed'']
   \<and> \<not> spec_succeeds env_fetch_rejects automation_summary None
   \<and> statusesWritten (snd (executeAutomation env_fetch_rejects automation_summary None)) =
        [JStr ''running'', JStr ''failed'']"
proof -
  have 1: "isTrue (a_is_enabled automation_no_message) \<or> isTrue (a_is_active automation_no_message)"
    by (simp add: automation_no_message_def automation_email_def isTrue_def)
  have 2: "\<not> spec_succeeds env_ok automation_no_message None"
    by code_simp
  have 3: "\<not> spec_simulated_succeeds env_ok automation_no_message"
    by code_simp
  have 4: "fst (insert_run env_ok (runInsert env_ok automation_no_message)) = Some \<lparr>run_id = ''r1''\<rparr>"
    by (simp add: env_ok_def)
  have 5: "isTrue (a_is_enabled automation_email) \<or> isTrue (a_is_active automation_email)"
    by (simp add: automation_email_def isTrue_def)
  have 6: "\<not> spec_succeeds env_no_session automation_email None"
    by code_simp
  have 7: "spec_simulated_succeeds env_no_session automation_email"
    by code_simp
  have 8: "fst (insert_run env_no_session (runInsert env_no_session automation_email)) =
             Some \<lparr>run_id = ''r1''\<rparr>"
    by (simp add: env_no_session_def env_ok_def)
  have 9: "isTrue (a_is_enabled automation_summary) \<or> isTrue (a_is_active automation_summary)"
    by (simp add: automation_summary_def automation_email_def isTrue_def)
  have 10: "select_client env_found_by_id ''client_id'' ''c1'' =
        (None, Some (ErrorObject (Some ''no rows'') (Some ''PGRST116'')))"
    by (simp add: env_found_by_id_def)
  have 11: "spec_succeeds env_found_by_id automation_summary None"
    by code_simp
  have 12: "fst (insert_run env_found_by_id (runInsert env_found_by_id automation_summary)) =
             Some \<lparr>run_id = ''r1''\<rparr>"
    by (simp add: env_found_by_id_def env_ok_def)
  have 13: "\<not> spec_succeeds env_fetch_rejects automation_summary None"
    by code_simp
  have 14: "fst (insert_run env_fetch_rejects (runInsert env_fetch_rejects automation_summary)) =
             Some \<lparr>run_id = ''r1''\<rparr>"
    by (simp add: env_fetch_rejects_def env_ok_def)
  note t1 = run_statuses_and_what_decides_them [OF 1, of env_ok None]
  note t3 = run_statuses_and_what_decides_them [OF 9, of env_found_by_id None]
  note t4 = run_statuses_and_what_decides_them [OF 9, of env_fetch_rejects None]
  note t2 = run_statuses_and_what_decides_them [OF 5, of env_no_session None]
  have a: "statusesWritten (snd (executeAutomation env_ok automation_no_message None)) =
        [JStr ''running'', JStr ''failed'']"
    using t1 [THEN conjunct2, THEN conjunct1] by (simp add: 2 4)
  have b: "statusesWritten (snd (executeAutomation_simulated env_ok automation_no_message None)) =
        [JStr ''running'', JStr ''failed'']"
    using t1 [THEN conjunct2, THEN conjunct2, THEN conjunct2] by (simp add: 3 4)
  have c: "statusesWritten (snd (executeAutomation env_no_session automation_email None)) =
        [JStr ''running'', JStr ''failed'']"
    using t2 [THEN conjunct2, THEN conjunct1] by (simp add: 6 8)
  have d: "statusesWritten (snd (executeAutomation_simulated env_no_session automation_email None)) =
        [JStr ''running'', JStr ''completed'']"
    using t2 [THEN conjunct2, THEN conjunct2, THEN conjunct2] by (simp add: 7 8)
  have e: "statusesWritten (snd (executeAutomation env_found_by_id automation_summary None)) =
        [JStr ''running'', JStr ''completed'']"
    using t3 [THEN conjunct2, THEN conjunct1] by (simp add: 11 12)
  have f: "statusesWritten (snd (executeAutomation env_fetch_rejects automation_summary None)) =
        [JStr ''running'', JStr ''failed'']"
    using t4 [THEN conjunct2, THEN conjunct1] by (simp add: 13 14)
  show ?thesis by (intro conjI 1 2 3 a b 5 6 7 c d 9 10 11 e 13 f)
qed

theorem terminal_state_without_remote_failure_counterexample:
  "snd (executeAutomation env_ok automation_no_message None) =
     [InsertRow AutomationRuns
        [(''automation_id'', JStr ''a1''), (''user_id'', JNull),
         (''automation_status'', JStr ''running''),
         (''started_at'', JStr ''2026-01-15T10:00:00.000Z''), (''finished_at'', JNull)],
      UpdateRow AutomationRuns
        [(''automation_status'', JStr ''failed''),
         (''error_message'', JStr ''Email message is required''),
         (''finished_at'', JStr ''2026-01-15T10:00:00.000Z'')]
        [(''id'', ''r1'')]]
   \<and> statusesWritten (snd (executeAutomation env_ok automation_email None)) =
        [JStr ''running'', JStr ''completed'']
   \<and> statusesWritten (snd (executeAutomation_simulated env_ok automation_no_message None)) =
        [JStr ''running'', JStr ''failed'']
   \<and> snd (executeAutomation_simulated env_ok automation_email None) =
     [InsertRow AutomationRuns
        [(''automation_id'', JStr ''a1''), (''user_id'', JNull),
         (''automation_status'', JStr ''running''),
         (''started_at'', JStr ''2026-01-15T10:00:00.000Z''), (''finished_at'', JNull)],
      UpdateRow AutomationRuns
        [(''automation_status'', JStr ''completed''), (''error_message'', JNull),
         (''finished_at'', JStr ''2026-01-15T10:00:00.000Z'')]
        [(''id'', ''r1'')]]"
  by code_simp

text \<open>
  C3, as the code has it. For an enabled automation whose insert answered with a row or an
  error, \<open>executeAutomation\<close> returns a result and its calls are, in this order: the insert
  of the run; the calls of the handler of the automation's type; and, when the insert
  returned a row, one update of that row. In the sending executor the handler of an email
  or a meeting fetches the client's address when the caller gave none, reads the session
  and invokes \<open>send-email\<close>; in the simulating executor it calls nothing. The handler of a
  summary fetches the client by \<open>client_id\<close> and, after \<open>PGRST116\<close>, by \<open>id\<close>, queries the
  deals, the interactions and the prioritization, and calls the HTTP API. Each call of a
  handler is made only when the steps before it went through, and an automation of
  another type has no calls of a handler. The places of the calls in the pipeline increase
  strictly, and there are at most eight calls.
\<close>

theorem pipeline_calls_in_order:
  assumes "isTrue (a_is_enabled a) \<or> isTrue (a_is_active a)"
      and "insert_run env (runInsert env a) = (run, runError)"
      and "run \<noteq> None \<or> runError \<noteq> None"
  shows "(\<exists>result.
            fst (executeAutomation env a ce) = Inr result
            \<and> success result = spec_succeeds env a ce
            \<and> snd (executeAutomation env a ce) =
                InsertRow AutomationRuns (runInsert env a) # spec_handler_calls env a ce
                  @ spec_update_calls env a run result)
         \<and> (\<exists>result.
            fst (executeAutomation_simulated env a ce) = Inr result
            \<and> success result = spec_simulated_succeeds env a
            \<and> snd (executeAutomation_simulated env a ce) =
                InsertRow AutomationRuns (runInsert env a) # spec_simulated_calls env a
                  @ spec_update_calls env a run result)
         \<and> sorted_wrt (<) (map stage (snd (executeAutomation env a ce)))
         \<and> sorted_wrt (<) (map stage (snd (executeAutomation_simulated env a ce)))
         \<and> length (snd (executeAutomation env a ce)) \<le> 8
         \<and> length (snd (executeAutomation_simulated env a ce)) \<le> 8"
proof -
  obtain r1 where r1: "fst (runHandler sendingHandlers env a ce) = Inr r1"
      and s1: "success r1 = spec_succeeds env a ce"
    using runHandler_sending_succeeds by blast
  obtain r2 where r2: "fst (runHandler simulatingHandlers env a ce) = Inr r2"
      and s2: "success r2 = spec_simulated_succeeds env a"
    using runHandler_simulating_succeeds by blast
  have m1: "sendingHandlers \<in> repositoryHandlers" and m2: "simulatingHandlers \<in> repositoryHandlers"
    by (simp_all add: repositoryHandlers_def)
  have a: "\<exists>result.
            fst (executeAutomation env a ce) = Inr result
            \<and> success result = spec_succeeds env a ce
            \<and> snd (executeAutomation env a ce) =
                InsertRow AutomationRuns (runInsert env a) # spec_handler_calls env a ce
                  @ spec_update_calls env a run result"
    using executeAutomationWith_calls [OF assms r1] s1
    by (simp add: executeAutomation_def runHandler_sending_calls)
  have b: "\<exists>result.
            fst (executeAutomation_simulated env a ce) = Inr result
            \<and> success result = spec_simulated_succeeds env a
            \<and> snd (executeAutomation_simulated env a ce) =
                InsertRow AutomationRuns (runInsert env a) # spec_simulated_calls env a
                  @ spec_update_calls env a run result"
    using executeAutomationWith_calls [OF assms r2] s2
    by (simp add: executeAutomation_simulated_def runHandler_simulating_calls)
  have c: "sorted_wrt (<) (map stage (snd (executeAutomation env a ce)))"
    and e: "length (snd (executeAutomation env a ce)) \<le> 8"
    using executeAutomationWith_stages [OF m1, of env a ce] by (simp_all add: executeAutomation_def)
  have d: "sorted_wrt (<) (map stage (snd (executeAutomation_simulated env a ce)))"
    and f: "length (snd (executeAutomation_simulated env a ce)) \<le> 8"
    using executeAutomationWith_stages [OF m2, of env a ce]
    by (simp_all add: executeAutomation_simulated_def)
  show ?thesis by (intro conjI a b c d e f)
qed

theorem pipeline_calls_in_order_witness:
  "(isTrue (a_is_enabled automation_summary) \<or> isTrue (a_is_active automation_summary))
   \<and> insert_run env_found_by_id (runInsert env_found_by_id automation_summary) = (Some \<lparr>run_id = ''r1''\<rparr>, None)
   \<and> (\<exists>result.
         fst (executeAutomation env_found_by_id automation_summary None) = Inr result
         \<and> success result
         \<and> snd (executeAutomation env_found_by_id automation_summary None) =
             [InsertRow AutomationRuns (runInsert env_found_by_id automation_summary),
              SelectSingle Clients ''*'' [(''client_id'', ''c1'')],
              SelectSingle Clients ''*'' [(''id'', ''c1'')],
              SelectMany Deals ''*'' [(''client_id'', ''c1'')],
              SelectMany Interactions ''*'' [(''client_id'', ''c1'')],
              SelectSingle ClientPrioritizations ''*'' [(''client_id'', ''c1'')],
              Fetch ''https://api.openai.com/v1/chat/completions'',
              UpdateRow AutomationRuns (updateData env_found_by_id automation_summary result)
                [(''id'', ''r1'')]])
   \<and> insert_run env_insert_fails (runInsert env_insert_fails automation_meeting) =
         (None, Some (ErrorObject (Some ''permission denied'') (Some ''42501'')))
   \<and> (\<exists>result.
         fst (executeAutomation env_insert_fails automation_meeting None) = Inr result
         \<and> success result
         \<and> snd (executeAutomation env_insert_fails automation_meeting None) =
             [InsertRow AutomationRuns (runInsert env_insert_fails automation_meeting),
              SelectSingle Clients ''email, client_id'' [(''client_id'', ''c1'')],
              GetSession,
              Invoke ''send-email''
                \<lparr>to = ''ada@example.com'', subject = ''Follow-up: Kickoff'',
                 html = meetingHtml ''Kickoff'' ''Thanks'', text_part = ''Thanks''\<rparr>])
   \<and> (\<exists>result.
         fst (executeAutomation_simulated env_insert_fails automation_meeting None) = Inr result
         \<and> success result
         \<and> snd (executeAutomation_simulated env_insert_fails automation_meeting None) =
             [InsertRow AutomationRuns (runInsert env_insert_fails automation_meeting)])"
proof -
  have 1: "isTrue (a_is_enabled automation_summary) \<or> isTrue (a_is_active automation_summary)"
    by (simp add: automation_summary_def automation_email_def isTrue_def)
  have 2: "insert_run env_found_by_id (runInsert env_found_by_id automation_summary) = (Some \<lparr>run_id = ''r1''\<rparr>, None)"
    by (simp add: env_found_by_id_def env_ok_def)
  have 3: "Some \<lparr>run_id = ''r1''\<rparr> \<noteq> None \<or> (None :: error_object option) \<noteq> None"
    by simp
  have 4: "spec_handler_calls env_found_by_id automation_summary None =
          [SelectSingle Clients ''*'' [(''client_id'', ''c1'')],
           SelectSingle Clients ''*'' [(''id'', ''c1'')],
           SelectMany Deals ''*'' [(''client_id'', ''c1'')],
           SelectMany Interactions ''*'' [(''client_id'', ''c1'')],
           SelectSingle ClientPrioritizations ''*'' [(''client_id'', ''c1'')],
           Fetch ''https://api.openai.com/v1/chat/completions'']"
    by code_simp
  have 5: "spec_succeeds env_found_by_id automation_summary None"
    by code_simp
  have 6: "isTrue (a_is_enabled automation_meeting) \<or> isTrue (a_is_active automation_meeting)"
    by (simp add: automation_meeting_def automation_email_def isTrue_def)
  have 7: "insert_run env_insert_fails (runInsert env_insert_fails automation_meeting) =
         (None, Some (ErrorObject (Some ''permission denied'') (Some ''42501'')))"
    by (simp add: env_insert_fails_def env_ok_def)
  have 8: "(None :: run_row option) \<noteq> None
           \<or> Some (ErrorObject (Some ''permission denied'') (Some ''42501'')) \<noteq> None"
    by simp
  have 9: "spec_handler_calls env_insert_fails automation_meeting None =
          [SelectSingle Clients ''email, client_id'' [(''client_id'', ''c1'')],
           GetSession,
           Invoke ''send-email''
             \<lparr>to = ''ada@example.com'', subject = ''Follow-up: Kickoff'',
              html = meetingHtml ''Kickoff'' ''Thanks'', text_part = ''Thanks''\<rparr>]"
    by code_simp
  have 10: "spec_succeeds env_insert_fails automation_meeting None"
    by code_simp
  have 11: "spec_simulated_calls env_insert_fails automation_meeting = []"
    by code_simp
  have 12: "spec_simulated_succeeds env_insert_fails automation_meeting"
    by code_simp
  note t1 = pipeline_calls_in_order [OF 1 2 3, of None]
  note t2 = pipeline_calls_in_order [OF 6 7 8, of None]
  have a: "\<exists>result.
         fst (executeAutomation env_found_by_id automation_summary None) = Inr result
         \<and> success result
         \<and> snd (executeAutomation env_found_by_id automation_summary None) =
             [InsertRow AutomationRuns (runInsert env_found_by_id automation_summary),
              SelectSingle Clients ''*'' [(''client_id'', ''c1'')],
              SelectSingle Clients ''*'' [(''id'', ''c1'')],
              SelectMany Deals ''*'' [(''client_id'', ''c1'')],
              SelectMany Interactions ''*'' [(''client_id'', ''c1'')],
              SelectSingle ClientPrioritizations ''*'' [(''client_id'', ''c1'')],
              Fetch ''https://api.openai.com/v1/chat/completions'',
              UpdateRow AutomationRuns (updateData env_found_by_id automation_summary result)
                [(''id'', ''r1'')]]"
    using t1 [THEN conjunct1] by (simp add: 4 5 spec_update_calls_def)
  have b: "\<exists>result.
         fst (executeAutomation env_insert_fails automation_meeting None) = Inr result
         \<and> success result
         \<and> snd (executeAutomation env_insert_fails automation_meeting None) =
             [InsertRow AutomationRuns (runInsert env_insert_fails automation_meeting),
              SelectSingle Clients ''email, client_id'' [(''client_id'', ''c1'')],
              GetSession,
              Invoke ''send-email''
                \<lparr>to = ''ada@example.com'', subject = ''Follow-up: Kickoff'',
                 html = meetingHtml ''Kickoff'' ''Thanks'', text_part = ''Thanks''\<rparr>]"
    using t2 [THEN conjunct1] by (simp add: 9 10 spec_update_calls_def)
  have c: "\<exists>result.
         fst (executeAutomation_simulated env_insert_fails automation_meeting None) = Inr result
         \<and> success result
         \<and> snd (executeAutomation_simulated env_insert_fails automation_meeting None) =
             [InsertRow AutomationRuns (runInsert env_insert_fails automation_meeting)]"
    using t2 [THEN conjunct2, THEN conjunct1] by (simp add: 11 12 spec_update_calls_def)
  show ?thesis by (intro conjI 1 2 a 7 b c)
qed

theorem summary_pipeline_makes_seven_calls_counterexample:
  "snd (executeAutomation env_ok automation_summary None) =
     [InsertRow AutomationRuns
        [(''automation_id'', JStr ''a1''), (''user_id'', JNull),
         (''automation_status'', JStr ''running''),
         (''started_at'', JStr ''2026-01-15T10:00:00.000Z''), (''finished_at'', JNull)],
      SelectSingle Clients ''*'' [(''client_id'', ''c1'')],
      SelectMany Deals ''*'' [(''client_id'', ''c1'')],
      SelectMany Interactions ''*'' [(''client_id'', ''c1'')],
      SelectSingle ClientPrioritizations ''*'' [(''client_id'', ''c1'')],
      Fetch ''https://api.openai.com/v1/chat/completions'',
      UpdateRow AutomationRuns
        [(''automation_status'', JStr ''completed''), (''error_message'', JNull),
         (''finished_at'', JStr ''2026-01-15T10:00:00.000Z''),
         (''result_data'',
          JObj [(''clientId'', JStr ''c1''), (''clientName'', JStr ''Ada''),
                (''summary'', JStr ''Summary text''),
                (''generatedAt'', JStr ''2026-01-15T10:00:00.000Z'')])]
        [(''id'', ''r1'')]]
   \<and> length (snd (executeAutomation env_ok automation_summary None)) = 7
   \<and> length (snd (executeAutomation env_ok automation_email None)) = 5
   \<and> length (snd (executeAutomation env_ok automation_fax None)) = 2"
  by code_simp

section \<open>Properties of the data hooks\<close>

lemma mapClient_fields:
  "mapClient client ''id'' =
     (if truthyVal (client ''client_id'') then client ''client_id'' else client ''id'')"
  "mapClient client ''source'' =
     (if truthyVal (client ''source'') then client ''source''
      else if truthyVal (client ''lead_source'') then client ''lead_source'' else JNull)"
  "mapClient client ''status'' =
     (if truthyVal (client ''priority'') then client ''priority''
      else if truthyVal (client ''status'') then client ''status'' else JNull)"
  "k \<notin> {''id'', ''source'', ''status''} \<Longrightarrow> mapClient client k = client k"
  by (simp_all add: mapClient_def orVal_def)

text \<open>
  C6, as the code has it. When the user is known and the query of \<open>clients\<close> answers with
  rows, \<open>useClients\<close> returns one record per row, in the same order, and for every row: the
  record's \<open>id\<close> is the row's \<open>client_id\<close> when that is truthy and the row's \<open>id\<close>
  otherwise; its \<open>source\<close> is the row's \<open>source\<close> when truthy, else \<open>lead_source\<close> when
  truthy, else \<open>null\<close>; its \<open>status\<close> is the row's \<open>priority\<close> when truthy, else \<open>status\<close>
  when truthy, else \<open>null\<close>; every other field is the row's. A value is truthy when it is
  present and not an empty string, zero or false.
\<close>

theorem useClients_applies_field_fallbacks:
  assumes "truthy userId"
      and "select_rows b (SelectMany Clients ''*'' [(''user_id'', the userId)]) = (Some rows, None)"
  shows "useClients b userId =
           (Inr (map mapClient rows), [SelectMany Clients ''*'' [(''user_id'', the userId)]])
       \<and> (\<forall>client \<in> set rows.
             mapClient client ''id'' =
               (if truthyVal (client ''client_id'') then client ''client_id'' else client ''id'')
           \<and> mapClient client ''source'' =
               (if truthyVal (client ''source'') then client ''source''
                else if truthyVal (client ''lead_source'') then client ''lead_source'' else JNull)
           \<and> mapClient client ''status'' =
               (if truthyVal (client ''priority'') then client ''priority''
                else if truthyVal (client ''status'') then client ''status'' else JNull)
           \<and> (\<forall>k. k \<notin> {''id'', ''source'', ''status''} \<longrightarrow> mapClient client k = client k))"
proof -
  have "useClients b userId =
           (Inr (map mapClient rows), [SelectMany Clients ''*'' [(''user_id'', the userId)]])"
    using assms
    by (simp add: useClients_def andThen_def remote_def returns_def rowsOr_def)
  then show ?thesis
    using mapClient_fields by blast
qed

theorem useClients_applies_field_fallbacks_witness:
  "truthy (Some ''u1'')
   \<and> select_rows backend_example (SelectMany Clients ''*'' [(''user_id'', ''u1'')]) = (Some [row_ada], None)
   \<and> useClients backend_example (Some ''u1'') =
        (Inr [mapClient row_ada], [SelectMany Clients ''*'' [(''user_id'', ''u1'')]])
   \<and> truthyVal (row_ada ''client_id'') \<and> mapClient row_ada ''id'' = JStr ''c1''
   \<and> \<not> truthyVal (row_ada ''source'') \<and> truthyVal (row_ada ''lead_source'')
   \<and> mapClient row_ada ''source'' = JStr ''web''
   \<and> truthyVal (row_ada ''priority'') \<and> mapClient row_ada ''status'' = JStr ''high''
   \<and> ''name'' \<notin> {''id'', ''source'', ''status''} \<and> mapClient row_ada ''name'' = JStr ''Ada''"
proof -
  have 1: "truthy (Some ''u1'')" by simp
  have 2: "select_rows backend_example (SelectMany Clients ''*'' [(''user_id'', the (Some ''u1''))])
             = (Some [row_ada], None)"
    by (simp add: backend_example_def)
  have 3: "row_ada ''client_id'' = JStr ''c1''" "row_ada ''source'' = JStr []"
    "row_ada ''lead_source'' = JStr ''web''" "row_ada ''priority'' = JStr ''high''"
    "row_ada ''name'' = JStr ''Ada''"
    by (simp_all add: row_ada_def)
  show ?thesis
    using 2 useClients_applies_field_fallbacks [OF 1 2] by (simp add: 3)
qed

theorem empty_source_replaced_counterexample:
  "row_ada ''source'' = JStr []
   \<and> column ''source'' (rowsOf (useClients backend_example (Some ''u1''))) = [JStr ''web'']"
  by code_simp

lemma snd_andThen_remote: "snd (andThen (remote ev r) f) = ev # snd (f r)"
  by (simp add: snd_andThen)

lemma snd_throws_or_returns [simp]:
  "snd (if c then throws e else returns x) = []"
  by simp

lemma snd_if: "snd (if c then x else y) = (if c then snd x else snd y)"
  by simp

lemma snd_option_case_returns [simp]:
  "snd (case d of None \<Rightarrow> throws e | Some x \<Rightarrow> returns (g x)) = []"
  by (cases d) simp_all

lemma useClients_calls:
  "snd (useClients b userId) =
     (if truthy userId then [SelectMany Clients ''*'' [(''user_id'', the userId)]] else [])"
  by (simp add: useClients_def snd_andThen_remote split: prod.splits)

lemma useDeals_calls:
  "snd (useDeals b userId) =
     (if truthy userId then [SelectMany Deals ''*, clients(name)'' [(''user_id'', the userId)]]
      else [])"
  by (simp add: useDeals_def snd_andThen_remote split: prod.splits)

lemma useAutomations_calls: "snd (useAutomations b) = [SelectMany Automations ''*'' []]"
  by (simp add: useAutomations_def snd_andThen_remote split: prod.splits sum.splits)

lemma useLatestAutomationRun_calls:
  "snd (useLatestAutomationRun b automationId userId) =
     (if truthy automationId \<and> truthy userId
      then [SelectMany AutomationRuns ''*''
              [(''automation_id'', the automationId), (''automation_status'', ''completed'')]]
      else [])"
  by (simp add: useLatestAutomationRun_def snd_andThen_remote Let_def
        split: prod.splits list.splits)

lemma useAutomationRuns_calls:
  "snd (useAutomationRuns b automationId userId) =
     (if truthy automationId \<and> truthy userId
      then [SelectMany AutomationRuns ''*'' [(''automation_id'', the automationId)]]
      else [])"
  by (simp add: useAutomationRuns_def snd_andThen_remote Let_def split: prod.splits)

lemma useCreateClient_calls:
  "snd (useCreateClient b userId payload) =
     (if truthy userId
      then [InsertRow Clients
              (spread payload
                 [(''user_id'', JStr (the userId)), (''created_at'', JStr (b_now b)),
                  (''updated_at'', JStr (b_now b)), (''last_contact'', JStr (b_now b))])]
      else [])"
  by (simp add: useCreateClient_def snd_andThen_remote Let_def split: prod.splits)

lemma useUpdateClient_calls:
  "snd (useUpdateClient b id' payload) =
     [UpdateRow Clients (spread payload [(''updated_at'', JStr (b_now b))]) [(''client_id'', id')]]"
  by (simp add: useUpdateClient_def snd_andThen_remote Let_def split: prod.splits)

lemma useDeleteClient_calls:
  "snd (useDeleteClient b id') = [DeleteRow Clients [(''client_id'', id')]]"
  by (simp add: useDeleteClient_def snd_andThen_remote Let_def split: prod.splits)

lemma useCreateDeal_calls:
  "snd (useCreateDeal b userId payload) =
     (if truthy userId
      then [InsertRow Deals (spread payload [(''user_id'', JStr (the userId))])]
      else [])"
  by (simp add: useCreateDeal_def snd_andThen_remote Let_def split: prod.splits)

lemma useUpdateDeal_calls:
  "snd (useUpdateDeal b userId id' payload) =
     (if truthy userId
      then [UpdateRow Deals payload [(''id'', id'), (''user_id'', the userId)]]
      else [])"
  by (simp add: useUpdateDeal_def snd_andThen_remote Let_def split: prod.splits)

lemma useDeleteDeal_calls:
  "snd (useDeleteDeal b userId id') =
     (if truthy userId then [DeleteRow Deals [(''id'', id'), (''user_id'', the userId)]] else [])"
  by (simp add: useDeleteDeal_def snd_andThen_remote Let_def split: prod.splits)

lemma useCreateAutomation_calls:
  "\<exists>p. snd (useCreateAutomation b userId input) =
         (if truthy userId then [InsertRow Automations p] else [])"
  by (simp add: useCreateAutomation_def snd_andThen_remote Let_def
        split: prod.splits option.splits sum.splits)

lemma useUpdateAutomation_calls:
  "\<exists>p. snd (useUpdateAutomation b idOpt automationIdOpt input) =
         (if truthy (orElse automationIdOpt idOpt)
          then [UpdateRow Automations p [(''automation_id'', the (orElse automationIdOpt idOpt))]]
          else [])"
proof (cases "truthy (orElse automationIdOpt idOpt)")
  case False
  then show ?thesis by (simp add: useUpdateAutomation_def)
next
  case True
  then show ?thesis
    unfolding useUpdateAutomation_def Let_def
    by (simp add: snd_andThen_remote snd_if split: prod.splits split del: if_split cong: if_cong)
qed

lemma useDeleteAutomation_trace:
  "snd (useDeleteAutomation b id') =
     [DeleteRow AutomationRuns [(''automation_id'', id')],
      DeleteRow Automations [(''automation_id'', id')]]"
  by (simp add: useDeleteAutomation_def snd_andThen_remote split: prod.splits)

lemma executeAutomationWith_exact_writes:
  assumes "hs \<in> repositoryHandlers"
  shows "\<exists>p. filter isWrite (snd (executeAutomationWith hs env a ce)) =
           (if isTrue (a_is_enabled a) \<or> isTrue (a_is_active a)
            then InsertRow AutomationRuns (runInsert env a) #
                   (case fst (insert_run env (runInsert env a)) of
                      None \<Rightarrow> []
                    | Some r \<Rightarrow> [UpdateRow AutomationRuns p [(''id'', run_id r)]])
            else [])"
proof (cases "isTrue (a_is_enabled a) \<or> isTrue (a_is_active a)")
  case False
  then show ?thesis by (simp add: executeAutomationWith_disabled)
next
  case True
  obtain result where r: "fst (runHandler hs env a ce) = Inr result"
    using runHandler_returns [OF assms] by blast
  define h where "h = snd (runHandler hs env a ce)"
  have rh: "runHandler hs env a ce = (Inr result, h)"
    using r by (simp add: h_def prod_eq_iff)
  have nw: "\<forall>e \<in> set h. \<not> isWrite e"
    using runHandler_trace [OF assms, of env a ce] by (simp add: h_def pipelineTrace_def)
  then have fh: "filter isWrite h = []" by (simp add: filter_empty_conv)
  obtain run runError where ins: "insert_run env (runInsert env a) = (run, runError)"
    by (cases "insert_run env (runInsert env a)")
  show ?thesis
    unfolding executeAutomationWith_enabled [OF True ins rh]
    using fh ins True by (auto simp: snd_updateRun split: option.splits)
qed

text \<open>
  C7, as the code has it. Each query hook makes one read of one table, or no call when
  the user or the id it needs is missing: \<open>useClients\<close> of \<open>clients\<close>, \<open>useDeals\<close> of \<open>deals\<close>,
  \<open>useAutomations\<close> of \<open>automations\<close>, \<open>useLatestAutomationRun\<close> and \<open>useAutomationRuns\<close> of
  \<open>automation_runs\<close>. Each hook that creates, updates or deletes a client or a deal, or
  creates or updates an automation, makes exactly one call, a write of that kind to its
  table (\<open>clients\<close>, \<open>deals\<close>, \<open>automations\<close>), or no call when the user or the id it needs is
  missing. \<open>useDeleteAutomation\<close> makes two writes, to two tables: it deletes the runs of
  the automation and then the automation. The writes of \<open>executeAutomation\<close> for an enabled
  automation are the insert into \<open>automation_runs\<close> and then, when the insert returned a
  row, an update of \<open>automation_runs\<close> addressed to the id of that row.
\<close>

theorem data_operations_and_their_writes:
  assumes "hs \<in> repositoryHandlers"
  shows "snd (useClients b userId) =
           (if truthy userId then [SelectMany Clients ''*'' [(''user_id'', the userId)]] else [])
       \<and> snd (useDeals b userId) =
           (if truthy userId
            then [SelectMany Deals ''*, clients(name)'' [(''user_id'', the userId)]]
            else [])
       \<and> snd (useAutomations b) = [SelectMany Automations ''*'' []]
       \<and> snd (useLatestAutomationRun b automationId userId) =
           (if truthy automationId \<and> truthy userId
            then [SelectMany AutomationRuns ''*''
                    [(''automation_id'', the automationId), (''automation_status'', ''completed'')]]
            else [])
       \<and> snd (useAutomationRuns b automationId userId) =
           (if truthy automationId \<and> truthy userId
            then [SelectMany AutomationRuns ''*'' [(''automation_id'', the automationId)]]
            else [])
       \<and> snd (useCreateClient b userId payload) =
           (if truthy userId
            then [InsertRow Clients
                    (spread payload
                       [(''user_id'', JStr (the userId)), (''created_at'', JStr (b_now b)),
                        (''updated_at'', JStr (b_now b)), (''last_contact'', JStr (b_now b))])]
            else [])
       \<and> snd (useUpdateClient b id' payload) =
           [UpdateRow Clients (spread payload [(''updated_at'', JStr (b_now b))])
              [(''client_id'', id')]]
       \<and> snd (useDeleteClient b id') = [DeleteRow Clients [(''client_id'', id')]]
       \<and> snd (useCreateDeal b userId payload) =
           (if truthy userId
            then [InsertRow Deals (spread payload [(''user_id'', JStr (the userId))])]
            else [])
       \<and> snd (useUpdateDeal b userId id' payload) =
           (if truthy userId
            then [UpdateRow Deals payload [(''id'', id'), (''user_id'', the userId)]]
            else [])
       \<and> snd (useDeleteDeal b userId id') =
           (if truthy userId then [DeleteRow Deals [(''id'', id'), (''user_id'', the userId)]]
            else [])
       \<and> (\<exists>p. snd (useCreateAutomation b userId input) =
                 (if truthy userId then [InsertRow Automations p] else []))
       \<and> (\<exists>p. snd (useUpdateAutomation b idOpt automationIdOpt input) =
                 (if truthy (orElse automationIdOpt idOpt)
                  then [UpdateRow Automations p
                          [(''automation_id'', the (orElse automationIdOpt idOpt))]]
                  else []))
       \<and> snd (useDeleteAutomation b id') =
             [DeleteRow AutomationRuns [(''automation_id'', id')],
              DeleteRow Automations [(''automation_id'', id')]]
       \<and> (\<exists>p. filter isWrite (snd (executeAutomationWith hs env a ce)) =
                 (if isTrue (a_is_enabled a) \<or> isTrue (a_is_active a)
                  then InsertRow AutomationRuns (runInsert env a) #
                         (case fst (insert_run env (runInsert env a)) of
                            None \<Rightarrow> []
                          | Some r \<Rightarrow> [UpdateRow AutomationRuns p [(''id'', run_id r)]])
                  else []))"
  by (intro conjI useClients_calls useDeals_calls useAutomations_calls
        useLatestAutomationRun_calls useAutomationRuns_calls useCreateClient_calls
        useUpdateClient_calls useDeleteClient_calls useCreateDeal_calls useUpdateDeal_calls
        useDeleteDeal_calls useCreateAutomation_calls useUpdateAutomation_calls
        useDeleteAutomation_trace executeAutomationWith_exact_writes [OF assms])

theorem data_operations_and_their_writes_witness:
  "sendingHandlers \<in> repositoryHandlers
   \<and> snd (useClients backend_example (Some ''u1'')) =
        [SelectMany Clients ''*'' [(''user_id'', ''u1'')]]
   \<and> snd (useCreateClient backend_example (Some ''u1'') [(''name'', JStr ''Ada'')]) =
        [InsertRow Clients
           [(''name'', JStr ''Ada''), (''user_id'', JStr ''u1''),
            (''created_at'', JStr ''2026-01-15T10:00:00.000Z''),
            (''updated_at'', JStr ''2026-01-15T10:00:00.000Z''),
            (''last_contact'', JStr ''2026-01-15T10:00:00.000Z'')]]
   \<and> snd (useDeleteDeal backend_example (Some ''u1'') ''d1'') =
        [DeleteRow Deals [(''id'', ''d1''), (''user_id'', ''u1'')]]
   \<and> snd (useDeleteDeal backend_example None ''d1'') = []
   \<and> snd (useDeleteAutomation backend_example ''d1'') =
        [DeleteRow AutomationRuns [(''automation_id'', ''d1'')],
         DeleteRow Automations [(''automation_id'', ''d1'')]]
   \<and> (\<exists>p. filter isWrite (snd (executeAutomationWith sendingHandlers env_other_run automation_fax None)) =
          [InsertRow AutomationRuns (runInsert env_other_run automation_fax),
           UpdateRow AutomationRuns p [(''id'', ''r2'')]])"
proof -
  have 1: "sendingHandlers \<in> repositoryHandlers"
    by (simp add: repositoryHandlers_def)
  have 2: "isTrue (a_is_enabled automation_fax) \<or> isTrue (a_is_active automation_fax)"
    by (simp add: automation_fax_def automation_email_def isTrue_def)
  have 3: "fst (insert_run env_other_run (runInsert env_other_run automation_fax)) =
             Some \<lparr>run_id = ''r2''\<rparr>"
    by (simp add: env_other_run_def)
  have 4: "b_now backend_example = ''2026-01-15T10:00:00.000Z''"
    by (simp add: backend_example_def)
  have 5: "spread [(''name'', JStr ''Ada'')]
             [(''user_id'', JStr ''u1''),
              (''created_at'', JStr ''2026-01-15T10:00:00.000Z''),
              (''updated_at'', JStr ''2026-01-15T10:00:00.000Z''),
              (''last_contact'', JStr ''2026-01-15T10:00:00.000Z'')] =
           [(''name'', JStr ''Ada''), (''user_id'', JStr ''u1''),
            (''created_at'', JStr ''2026-01-15T10:00:00.000Z''),
            (''updated_at'', JStr ''2026-01-15T10:00:00.000Z''),
            (''last_contact'', JStr ''2026-01-15T10:00:00.000Z'')]"
    by code_simp
  note t = data_operations_and_their_writes [OF 1, where b = backend_example
      and userId = "Some ''u1''" and id' = "''d1''" and payload = "[(''name'', JStr ''Ada'')]"
      and env = env_other_run and a = automation_fax and ce = None]
  note t' = data_operations_and_their_writes [OF 1, where b = backend_example
      and userId = None and id' = "''d1''"]
  have a: "snd (useClients backend_example (Some ''u1'')) =
        [SelectMany Clients ''*'' [(''user_id'', ''u1'')]]"
    using t by simp
  have b: "snd (useCreateClient backend_example (Some ''u1'') [(''name'', JStr ''Ada'')]) =
        [InsertRow Clients
           [(''name'', JStr ''Ada''), (''user_id'', JStr ''u1''),
            (''created_at'', JStr ''2026-01-15T10:00:00.000Z''),
            (''updated_at'', JStr ''2026-01-15T10:00:00.000Z''),
            (''last_contact'', JStr ''2026-01-15T10:00:00.000Z'')]]"
    using t by (simp add: 4 5)
  have c: "snd (useDeleteDeal backend_example (Some ''u1'') ''d1'') =
        [DeleteRow Deals [(''id'', ''d1''), (''user_id'', ''u1'')]]"
    using t by simp
  have d: "snd (useDeleteDeal backend_example None ''d1'') = []"
    using t' by simp
  have e: "snd (useDeleteAutomation backend_example ''d1'') =
        [DeleteRow AutomationRuns [(''automation_id'', ''d1'')],
         DeleteRow Automations [(''automation_id'', ''d1'')]]"
    using t by simp
  have f: "\<exists>p. filter isWrite (snd (executeAutomationWith sendingHandlers env_other_run automation_fax None)) =
          [InsertRow AutomationRuns (runInsert env_other_run automation_fax),
           UpdateRow AutomationRuns p [(''id'', ''r2'')]]"
    using t by (simp add: 2 3)
  show ?thesis by (intro conjI 1 a b c d e f)
qed

theorem two_writes_in_one_operation_counterexample:
  "snd (useDeleteAutomation backend_example ''a1'') =
     [DeleteRow AutomationRuns [(''automation_id'', ''a1'')],
      DeleteRow Automations [(''automation_id'', ''a1'')]]
   \<and> filter isWrite (snd (executeAutomation env_ok automation_fax None)) =
     [InsertRow AutomationRuns
        [(''automation_id'', JStr ''a1''), (''user_id'', JNull),
         (''automation_status'', JStr ''running''),
         (''started_at'', JStr ''2026-01-15T10:00:00.000Z''), (''finished_at'', JNull)],
      UpdateRow AutomationRuns
        [(''automation_status'', JStr ''failed''),
         (''error_message'', JStr ''Unknown automation type: fax''),
         (''finished_at'', JStr ''2026-01-15T10:00:00.000Z'')]
        [(''id'', ''r1'')]]
   \<and> filter isWrite (snd (executeAutomation env_other_run automation_fax None)) =
     [InsertRow AutomationRuns
        [(''automation_id'', JStr ''a1''), (''user_id'', JNull),
         (''automation_status'', JStr ''running''),
         (''started_at'', JStr ''2026-01-15T10:00:00.000Z''), (''finished_at'', JNull)],
      UpdateRow AutomationRuns
        [(''automation_status'', JStr ''failed''),
         (''error_message'', JStr ''Unknown automation type: fax''),
         (''finished_at'', JStr ''2026-01-15T10:00:00.000Z'')]
        [(''id'', ''r2'')]]"
  by code_simp

section \<open>Properties of the priority list\<close>

lemma priorityOf_not_inherited:
  assumes "p \<notin> set objectPrototypeKeys"
  shows "priorityOf p = Number (if p = ''high'' then 3 else if p = ''low'' then 1 else 2)"
  using assms by (simp add: priorityOf_def priorityOrder_def)

lemma withDeals_fields:
  "cl_status (withDeals deals c) = cl_status c"
  "cl_id (withDeals deals c) = cl_id c"
  "pc_priority (withDeals deals c) = orDefault (cl_status c) ''medium''"
  "pc_deals (withDeals deals c) = length (clientDeals deals c)"
  by (simp_all add: withDeals_def client.extend_def client.defs)

lemma spec_rank_orDefault:
  "spec_rank s =
     (if orDefault s ''medium'' = ''high'' then 3
      else if orDefault s ''medium'' = ''low'' then 1 else 2)"
  by (cases s) (auto simp: spec_rank_def orDefault_def)

lemma plain_withDeals:
  assumes "orDefault (cl_status c) ''medium'' \<notin> set objectPrototypeKeys"
  shows "plain (withDeals deals c)"
  using priorityOf_not_inherited [OF assms]
  by (simp add: plain_def withDeals_fields spec_rank_orDefault [of "cl_status c"])

lemma sortCompare_plain:
  assumes "plain a" and "plain b"
  shows "sortCompare compareFn a b \<le> 0 \<longleftrightarrow> spec_before a b"
  using assms
  by (auto simp: sortCompare_def compareFn_def plain_def spec_before_def Let_def)

lemma spec_before_total: "spec_before a b \<or> spec_before b a"
  by (auto simp: spec_before_def)

lemma spec_before_trans: "spec_before a b \<Longrightarrow> spec_before b c \<Longrightarrow> spec_before a c"
  by (auto simp: spec_before_def)

lemma set_insertBy: "set (insertBy cmp x xs) = insert x (set xs)"
  by (induction xs) auto

lemma sorted_insertBy:
  assumes "sorted_wrt spec_before xs" and "plain x" and "\<forall>y \<in> set xs. plain y"
  shows "sorted_wrt spec_before (insertBy compareFn x xs)"
  using assms
proof (induction xs)
  case Nil
  then show ?case by simp
next
  case (Cons y ys)
  show ?case
  proof (cases "sortCompare compareFn x y \<le> 0")
    case True
    then have xy: "spec_before x y"
      using sortCompare_plain [of x y] Cons.prems by simp
    have "spec_before x z" if "z \<in> set ys" for z
      using xy Cons.prems(1) that spec_before_trans [of x y z] by auto
    then show ?thesis
      using True xy Cons.prems(1) by auto
  next
    case False
    then have "\<not> spec_before x y"
      using sortCompare_plain [of x y] Cons.prems by simp
    then have yx: "spec_before y x"
      using spec_before_total [of x y] by blast
    have "sorted_wrt spec_before (insertBy compareFn x ys)"
      using Cons by simp
    then show ?thesis
      using False yx Cons.prems(1) by (auto simp: set_insertBy)
  qed
qed

lemma sorted_sortBy:
  assumes "\<forall>y \<in> set xs. plain y"
  shows "sorted_wrt spec_before (sortBy compareFn xs) \<and> set (sortBy compareFn xs) = set xs"
  using assms
proof (induction xs)
  case Nil
  then show ?case by (simp add: sortBy_def)
next
  case (Cons x xs)
  then have ih: "sorted_wrt spec_before (sortBy compareFn xs)" "set (sortBy compareFn xs) = set xs"
    by simp_all
  have "sortBy compareFn (x # xs) = insertBy compareFn x (sortBy compareFn xs)"
    by (simp add: sortBy_def)
  then show ?case
    using sorted_insertBy [OF ih(1), of x] ih(2) Cons.prems by (simp add: set_insertBy)
qed

lemma priorityClients_sorted_when_plain:
  assumes "\<forall>c \<in> set clients. orDefault (cl_status c) ''medium'' \<notin> set objectPrototypeKeys"
  shows "length (priorityClients clients deals) \<le> 5
       \<and> sorted_wrt spec_before (priorityClients clients deals)
       \<and> set (priorityClients clients deals) \<subseteq> withDeals deals ` set clients"
proof -
  have pl: "\<forall>y \<in> set (map (withDeals deals) clients). plain y"
    using assms plain_withDeals by auto
  have s: "sorted_wrt spec_before (sortBy compareFn (map (withDeals deals) clients))"
    and e: "set (sortBy compareFn (map (withDeals deals) clients)) = withDeals deals ` set clients"
    using sorted_sortBy [OF pl] by simp_all
  have "sorted_wrt spec_before (take 5 (sortBy compareFn (map (withDeals deals) clients)))"
    using s by (rule sorted_wrt_take)
  moreover have "set (take 5 (sortBy compareFn (map (withDeals deals) clients)))
                   \<subseteq> withDeals deals ` set clients"
    using e set_take_subset by fastforce
  ultimately show ?thesis
    by (simp add: priorityClients_def)
qed

text \<open>
  C10, at an input where the code departs from it. The rank of the status "constructor"
  is 2 in the specification (an unrecognized priority), and that of "high" is 3; the code
  looks "constructor" up in the object literal and finds the function that every object
  inherits, the comparison with "high" gives \<open>NaN\<close> in both directions, and the client with
  status "constructor" stays before the one with status "high".
\<close>

theorem inherited_key_breaks_priority_order:
  "map cl_status (priorityClients clients_example []) = [Some ''constructor'', Some ''high'']
   \<and> spec_rank (Some ''constructor'') = 2
   \<and> spec_rank (Some ''high'') = 3
   \<and> priorityOf ''constructor'' = Inherited ''constructor''"
  by code_simp

lemma plain_example:
  "map cl_id (priorityClients clients_plain deals_example) =
     [Str ''5'', Str ''3'', Str ''4'', Str ''2'', Str ''6'']"
  by code_simp

end
